theory Spec2Isabelle
  imports Main "HOL-Library.AList"
begin

section \<open>Values, documents and the document store\<close>

text \<open>
  JavaScript values as far as the plugin touches them. \<open>ObjectId n\<close> is an ObjectId
  object holding the identifier \<open>n\<close>; \<open>Fun r\<close> is a function object that returns the
  plain object \<open>r\<close> when it is called without arguments (the shape of a document's
  \<open>toObject\<close> method). An object is the list of its enumerable properties, in
  enumeration order; a property is read through \<open>map_of\<close>.
\<close>

datatype jsval =
    Undefined
  | Null
  | Bool bool
  | Str string
  | ObjectId nat
  | Fun "(string \<times> jsval) list"

type_synonym obj = "(string \<times> jsval) list"

text \<open>Reading a property that is not there gives \<open>undefined\<close>.\<close>

definition getProp :: "obj \<Rightarrow> string \<Rightarrow> jsval" where
  "getProp ob k = (case map_of ob k of None \<Rightarrow> Undefined | Some v \<Rightarrow> v)"

text \<open>JavaScript truthiness, as used by \<open>||\<close>, \<open>!\<close> and \<open>if\<close>.\<close>

fun truthy :: "jsval \<Rightarrow> bool" where
  "truthy Undefined = False"
| "truthy Null = False"
| "truthy (Bool b) = b"
| "truthy (Str s) = (s \<noteq> [])"
| "truthy (ObjectId n) = True"
| "truthy (Fun r) = True"

text \<open>
  \<open>a === b\<close> for two operands that are held by different objects. Primitives compare
  by value. Objects compare by reference: an ObjectId read from the clone that
  \<open>toObject()\<close> returns and the \<open>_id\<close> of another document are never the same
  object, whatever identifier they hold.
\<close>

fun strict_eq :: "jsval \<Rightarrow> jsval \<Rightarrow> bool" where
  "strict_eq Undefined Undefined = True"
| "strict_eq Null Null = True"
| "strict_eq (Bool a) (Bool b) = (a = b)"
| "strict_eq (Str a) (Str b) = (a = b)"
| "strict_eq _ _ = False"


text \<open>
  Casting to an ObjectId, as the schema layer does for \<open>_id\<close> and for a path declared
  with \<open>Schema.ObjectId\<close>: an ObjectId is kept, a string of 24 hexadecimal digits
  becomes the ObjectId it writes, \<open>null\<close> and \<open>undefined\<close> pass through unchanged, and
  anything else is a cast error.
\<close>

definition hexDigits :: "(char \<times> nat) list" where
  "hexDigits =
     [(CHR ''0'', 0), (CHR ''1'', 1), (CHR ''2'', 2), (CHR ''3'', 3), (CHR ''4'', 4),
      (CHR ''5'', 5), (CHR ''6'', 6), (CHR ''7'', 7), (CHR ''8'', 8), (CHR ''9'', 9),
      (CHR ''a'', 10), (CHR ''b'', 11), (CHR ''c'', 12), (CHR ''d'', 13), (CHR ''e'', 14),
      (CHR ''f'', 15), (CHR ''A'', 10), (CHR ''B'', 11), (CHR ''C'', 12), (CHR ''D'', 13),
      (CHR ''E'', 14), (CHR ''F'', 15)]"

definition isHex24 :: "string \<Rightarrow> bool" where
  "isHex24 s \<longleftrightarrow> length s = 24 \<and> list_all (\<lambda>c. map_of hexDigits c \<noteq> None) s"

definition parseHex :: "string \<Rightarrow> nat" where
  "parseHex s =
     foldl (\<lambda>acc c. 16 * acc + (case map_of hexDigits c of None \<Rightarrow> 0 | Some v \<Rightarrow> v)) 0 s"

fun castId :: "jsval \<Rightarrow> nat option" where
  "castId (ObjectId n) = Some n"
| "castId (Str s) = (if isHex24 s then Some (parseHex s) else None)"
| "castId Undefined = None"
| "castId Null = None"
| "castId (Bool b) = None"
| "castId (Fun r) = None"

fun castFails :: "jsval \<Rightarrow> bool" where
  "castFails Undefined = False"
| "castFails Null = False"
| "castFails (ObjectId n) = False"
| "castFails (Str s) = (\<not> isHex24 s)"
| "castFails (Bool b) = True"
| "castFails (Fun r) = True"

definition castValue :: "jsval \<Rightarrow> jsval" where
  "castValue v = (case castId v of None \<Rightarrow> v | Some n \<Rightarrow> ObjectId n)"

datatype exn = TypeError | ReferenceError | PluginError string

text \<open>What a callback receives as its first argument.\<close>

datatype err =
    StoreError string
  | SuccessFalse
  | Message string
  | NotUpToDate jsval
  | CastError
  | ValidationError

text \<open>
  An operation ends by calling its callback once with an error and a result, or by
  throwing inside a store callback, in which case the callback is never called.
\<close>

datatype 'r outcome =
    Callback "err option" "'r option"
  | Uncaught exn

section \<open>Plugin setup\<close>

text \<open>The options of one schema path; the plugin only copies them.\<close>

datatype pathopts = Declared string | ObjectIdType | BooleanType

type_synonym shape = "(string \<times> pathopts) list"

record options =
  mongoose :: bool
  optVersionIdPath :: "string option"
  optVersionOfIdPath :: "string option"
  optDeleteFlag :: "string option"

text \<open>\<open>options.x || dflt\<close>: an absent or empty name gives the default.\<close>

definition orDefault :: "string option \<Rightarrow> string \<Rightarrow> string" where
  "orDefault x dflt = (case x of None \<Rightarrow> dflt | Some s \<Rightarrow> if s = [] then dflt else s)"

definition versionIdPathOf :: "options \<Rightarrow> string" where
  "versionIdPathOf opts = orDefault (optVersionIdPath opts) ''versionId''"

definition versionOfIdPathOf :: "options \<Rightarrow> string" where
  "versionOfIdPathOf opts = orDefault (optVersionOfIdPath opts) ''versionOfId''"

text \<open>
  \<open>schema.eachPath\<close> with the test \<open>key !== '_id'\<close>: every declared path except the
  primary identifier, with its options.
\<close>

definition mirrored :: "shape \<Rightarrow> shape" where
  "mirrored paths = filter (\<lambda>(key, val). key \<noteq> ''_id'') paths"

text \<open>
  The setup of \<open>src/index.js\<close> (lines 74-114). The result is the shadow shape and the
  primary shape after \<open>schema.add(fields)\<close>.
\<close>

definition plugin :: "options option \<Rightarrow> shape \<Rightarrow> exn + (shape \<times> shape)" where
  "plugin options paths =
     (case options of
        None \<Rightarrow> Inl (PluginError ''mongoose-versioner requires mongoose'')
      | Some opts \<Rightarrow>
          if \<not> mongoose opts then Inl (PluginError ''mongoose-versioner requires mongoose'')
          else
            let versionIdPath = versionIdPathOf opts;
                versionOfIdPath = versionOfIdPathOf opts;
                shadowFields = mirrored paths
            in if map_of shadowFields versionOfIdPath \<noteq> None
               then Inl (PluginError ''options.versionOfIdPath must not be declared in the schema'')
               else
                 let shadowFields = AList.update versionOfIdPath ObjectIdType shadowFields
                 in if map_of paths versionIdPath \<noteq> None
                    then Inl (PluginError ''options.versionIdPath must be declared by mongoose-versioner'')
                    else Inr (shadowFields, AList.update versionIdPath ObjectIdType paths))"

text \<open>
  The setup of the variant with \<open>upsertVersion\<close> and \<open>deleteOriginal\<close>
  (\<open>src/unnamed/part_000\<close>, lines 34-83). Without \<open>options.mongoose\<close> it logs and
  returns, which is \<open>None\<close> here; a link field that is already declared is kept as it is.
\<close>

definition plugin_variant :: "options option \<Rightarrow> shape \<Rightarrow> (shape \<times> shape) option" where
  "plugin_variant options paths =
     (case options of
        None \<Rightarrow> None
      | Some opts \<Rightarrow>
          if \<not> mongoose opts then None
          else
            let versionIdPath = versionIdPathOf opts;
                versionOfIdPath = versionOfIdPathOf opts;
                shadowFields = mirrored paths;
                shadowFields =
                  (if map_of shadowFields versionOfIdPath = None
                   then AList.update versionOfIdPath ObjectIdType shadowFields else shadowFields);
                shadowFields =
                  (case optDeleteFlag opts of
                     None \<Rightarrow> shadowFields
                   | Some deleteFlag \<Rightarrow>
                       if deleteFlag \<noteq> [] \<and> map_of shadowFields deleteFlag = None
                       then AList.update deleteFlag BooleanType shadowFields else shadowFields);
                fields =
                  (if map_of paths versionIdPath = None
                   then [(versionIdPath, ObjectIdType)] else [])
            in Some (shadowFields, fold (\<lambda>(key, val). AList.update key val) fields paths))"

section \<open>The snapshot guard of saveVersion\<close>

text \<open>
  Lines 283-286 of \<open>src/index.js\<close>:
  \<^verbatim>\<open>var data = dataObj.data; if ("function" === data.toObject) { data = data.toObject(); }\<close>
  Calling a value that is not a function is a TypeError.
\<close>

definition toObjectGuard :: "obj \<Rightarrow> bool" where
  "toObjectGuard data = strict_eq (Str ''function'') (getProp data ''toObject'')"

definition callNoArgs :: "jsval \<Rightarrow> exn + obj" where
  "callNoArgs f = (case f of Fun r \<Rightarrow> Inr r | _ \<Rightarrow> Inl TypeError)"

definition snapshotData :: "obj \<Rightarrow> exn + obj" where
  "snapshotData data =
     (if toObjectGuard data then callNoArgs (getProp data ''toObject'') else Inr data)"

section \<open>Documents and collections\<close>

text \<open>
  The plugin is written against a document store and its schema layer, which are not part
  of the repository. They are modelled at the interface the plugin uses: lookup by
  identifier and by filter, insert, update and removal, strict schemas (only declared
  paths are stored), identifiers that are ObjectId objects, and the cast to ObjectId of
  an identifier, of a link field and of a query condition on either. The types of the
  fields that the primary schema declares itself are not modelled.

  A collection lists its documents in store order, each as its identifier and its stored
  fields (the \<open>_id\<close> is the key and is not repeated among the fields).
\<close>

type_synonym collection = "(nat \<times> obj) list"

text \<open>
  A document in memory. \<open>flds\<close> holds the values of the paths other than \<open>_id\<close>;
  \<open>adhoc\<close> holds what was assigned under a name that is not a schema path: a plain
  property of the JavaScript object, which \<open>save()\<close> does not store.
  \<open>idModified\<close> records an \<open>_id\<close> that the document could not take: another
  \<open>_id\<close> assigned to a loaded document, or a value that does not cast given to a new
  one.
\<close>

record mdoc =
  docId :: nat
  isNew :: bool
  flds :: obj
  adhoc :: obj
  idModified :: bool

text \<open>The store calls of the protocol, one name per call site.\<close>

datatype storeop =
    FindVersion
  | SaveVersionDoc
  | FindActive
  | SaveActive
  | SaveVersionAgain
  | FindOneActive
  | RemoveVersion
  | UpdateActive
  | UpdateVersion
  | FindActives
  | RemoveActive
  | CompensateRemove

text \<open>
  The store: both collections, the next identifier that \<open>new Model()\<close> generates,
  and the store calls issued so far.
\<close>

record db =
  primary :: collection
  shadow :: collection
  nextId :: nat
  log :: "storeop list"

text \<open>Which store calls report an error, and with which message.\<close>

type_synonym faults = "storeop \<Rightarrow> string option"

definition logOp :: "storeop \<Rightarrow> db \<Rightarrow> db" where
  "logOp op d = d\<lparr>log := log d @ [op]\<rparr>"

definition storeCall :: "faults \<Rightarrow> storeop \<Rightarrow> err + 'a \<Rightarrow> err + 'a" where
  "storeCall faults op r = (case faults op of Some e \<Rightarrow> Inl (StoreError e) | None \<Rightarrow> r)"

text \<open>
  The error of a lookup: a condition that does not cast is reported before the store is
  asked; otherwise the store may report its own error.
\<close>

definition findCall :: "faults \<Rightarrow> storeop \<Rightarrow> bool \<Rightarrow> err option" where
  "findCall faults op castFailure =
     (if castFailure then Some CastError
      else (case faults op of None \<Rightarrow> None | Some e \<Rightarrow> Some (StoreError e)))"

text \<open>
  What the plugin closes over: the two link-field names, the two shapes that the setup
  produced, the defaults of the declared paths, \<open>schema.options.versionKey\<close> and the
  two switches of the variant.
\<close>

record config =
  versionIdPath :: string
  versionOfIdPath :: string
  shadowShape :: shape
  primaryShape :: shape
  defaults :: obj
  versionKey :: "string option"
  append_only :: bool
  deleteFlag :: "string option"

text \<open>
  A schema as the documents of one collection see it: its paths, and the one path that
  the plugin declared with \<open>Schema.ObjectId\<close>, whose values are cast.
\<close>

record schema =
  fieldsOf :: shape
  idLink :: string

definition shadowSchema :: "config \<Rightarrow> schema" where
  "shadowSchema cfg = \<lparr>fieldsOf = shadowShape cfg, idLink = versionOfIdPath cfg\<rparr>"

definition primarySchema :: "config \<Rightarrow> schema" where
  "primarySchema cfg = \<lparr>fieldsOf = primaryShape cfg, idLink = versionIdPath cfg\<rparr>"

definition isPath :: "shape \<Rightarrow> string \<Rightarrow> bool" where
  "isPath shp key \<longleftrightarrow> map_of shp key \<noteq> None"

definition castAt :: "schema \<Rightarrow> string \<Rightarrow> jsval \<Rightarrow> jsval" where
  "castAt s key v = (if key = idLink s then castValue v else v)"

text \<open>\<open>doc[key]\<close>: a schema path reads the document's value, any other name the plain property.\<close>

definition getPath :: "shape \<Rightarrow> mdoc \<Rightarrow> string \<Rightarrow> jsval" where
  "getPath shp d key =
     (if key = ''_id'' then ObjectId (docId d)
      else if isPath shp key then getProp (flds d) key
      else getProp (adhoc d) key)"

text \<open>
  \<open>doc[key] = v\<close>. The schema is strict: a name that is not a path becomes a plain
  property of the object. The value of the link field is cast. The store refuses to
  change the \<open>_id\<close> of a stored document, so a different \<open>_id\<close> is only remembered
  until the document is saved.
\<close>

definition setPath :: "schema \<Rightarrow> mdoc \<Rightarrow> string \<Rightarrow> jsval \<Rightarrow> mdoc" where
  "setPath s d key v =
     (if key = ''_id'' then (if castId v = Some (docId d) then d else d\<lparr>idModified := True\<rparr>)
      else if isPath (fieldsOf s) key then d\<lparr>flds := AList.update key (castAt s key v) (flds d)\<rparr>
      else d\<lparr>adhoc := AList.update key v (adhoc d)\<rparr>)"

text \<open>
  \<open>new Model(data)\<close>: the paths of the shape, each with the value of \<open>data\<close> or else
  its default; names of \<open>data\<close> that are not paths are dropped. The \<open>_id\<close> is the one
  in \<open>data\<close> or else a generated one; an \<open>_id\<close> in \<open>data\<close> that does not cast
  is remembered as an error of the document.
\<close>

definition newDoc :: "schema \<Rightarrow> obj \<Rightarrow> nat \<Rightarrow> obj \<Rightarrow> mdoc" where
  "newDoc s dflts fresh dat =
     \<lparr>docId = (case castId (getProp dat ''_id'') of None \<Rightarrow> fresh | Some n \<Rightarrow> n),
      isNew = True,
      flds = List.map_filter
               (\<lambda>(key, val). if key = ''_id'' then None
                  else (case map_of dat key of
                          Some v \<Rightarrow> Some (key, castAt s key v)
                        | None \<Rightarrow> map_option (Pair key) (map_of dflts key)))
               (fieldsOf s),
      adhoc = [],
      idModified = castFails (getProp dat ''_id'')\<rparr>"

text \<open>
  What the document's own \<open>toObject\<close> method returns: a fresh plain object with the
  identifier and the stored fields.
\<close>

definition toObject :: "mdoc \<Rightarrow> obj" where
  "toObject d = (''_id'', ObjectId (docId d)) # flds d"

text \<open>
  \<open>doc.toObject()\<close>. A plain property named \<open>toObject\<close>, which a copy loop may have
  assigned, shadows the document's method: a function is called in its place, and any
  other value cannot be called. The model lets no other method be shadowed; the
  properties below that depend on \<open>save\<close> are stated for objects without a property of
  that name.
\<close>

definition callToObject :: "mdoc \<Rightarrow> exn + obj" where
  "callToObject d =
     (case map_of (adhoc d) ''toObject'' of
        None \<Rightarrow> Inr (toObject d)
      | Some f \<Rightarrow> callNoArgs f)"

text \<open>
  \<open>Model.findById(id)\<close> without the error channel: the identifier is cast, and only a
  value that casts finds a document.
\<close>

definition findById :: "collection \<Rightarrow> jsval \<Rightarrow> mdoc option" where
  "findById coll v =
     (case castId v of
        None \<Rightarrow> None
      | Some n \<Rightarrow>
          (case map_of coll n of
             None \<Rightarrow> None
           | Some f \<Rightarrow> Some \<lparr>docId = n, isNew = False, flds = f, adhoc = [], idModified = False\<rparr>))"

text \<open>
  \<open>doc.save()\<close> at the store: a new document is inserted, and the insert fails on a
  duplicate key; a loaded document is updated in place.
\<close>

definition saveDoc :: "collection \<Rightarrow> mdoc \<Rightarrow> err + (collection \<times> mdoc)" where
  "saveDoc coll d =
     (if isNew d then
        (if map_of coll (docId d) \<noteq> None then Inl (StoreError ''duplicate key'')
         else Inr (AList.update (docId d) (flds d) coll, d\<lparr>isNew := False\<rparr>))
      else if idModified d then Inl (StoreError ''Mod on _id not allowed'')
      else Inr (AList.update (docId d) (flds d) coll, d))"

text \<open>
  \<open>doc.save()\<close> with the validation before it: a link field whose value did not
  cast, or the \<open>_id\<close> of a new document that did not cast, is reported and nothing is
  stored.
\<close>

definition invalid :: "schema \<Rightarrow> mdoc \<Rightarrow> bool" where
  "invalid s d \<longleftrightarrow>
     (isNew d \<and> idModified d) \<or>
     (idLink s \<noteq> ''_id'' \<and> isPath (fieldsOf s) (idLink s) \<and> castFails (getProp (flds d) (idLink s)))"

definition saveChecked :: "schema \<Rightarrow> collection \<Rightarrow> mdoc \<Rightarrow> err + (collection \<times> mdoc)" where
  "saveChecked s coll d = (if invalid s d then Inl ValidationError else saveDoc coll d)"

text \<open>
  \<open>x.toString()\<close>. An ObjectId renders as the 24 hexadecimal digits of its identifier,
  which is \<open>Hex n\<close> here, as is a string of that form; \<open>undefined\<close> and \<open>null\<close> have
  no method to call.
\<close>

datatype jsstring = Hex nat | Chars string

fun toString :: "jsval \<Rightarrow> exn + jsstring" where
  "toString Undefined = Inl TypeError"
| "toString Null = Inl TypeError"
| "toString (Bool b) = Inr (Chars (if b then ''true'' else ''false''))"
| "toString (Str s) = Inr (if isHex24 s then Hex (parseHex s) else Chars s)"
| "toString (ObjectId n) = Inr (Hex n)"
| "toString (Fun r) = Inr (Chars ''function'')"

section \<open>saveVersion\<close>

record dataObj =
  data :: obj
  versionId :: jsval
  versionOfId :: jsval

text \<open>\<open>for (var key in data) { versDoc[key] = data[key]; }\<close>\<close>

definition copyData :: "schema \<Rightarrow> obj \<Rightarrow> mdoc \<Rightarrow> mdoc" where
  "copyData s dat versDoc =
     fold (\<lambda>key d. setPath s d key (getProp dat key)) (map fst dat) versDoc"

text \<open>
  Step 4a of \<open>src/index.js\<close>:
  \<^verbatim>\<open>for (var key in versDocObj) { if (key !== '_id' && key !== versionOfIdPath) { original[key] = versDocObj[key]; } }\<close>
\<close>

definition copyToActive :: "config \<Rightarrow> obj \<Rightarrow> mdoc \<Rightarrow> mdoc" where
  "copyToActive cfg versDocObj original =
     fold (\<lambda>key d.
             if key \<noteq> ''_id'' \<and> key \<noteq> versionOfIdPath cfg
             then setPath (primarySchema cfg) d key (getProp versDocObj key) else d)
       (map fst versDocObj) original"

text \<open>
  Lines 288-297 of \<open>src/index.js\<close> (187-196 of the variant): the Version Record to
  save is a new document made from \<open>data\<close>, or the located one with \<open>data\<close> copied
  onto it; then \<open>versDoc.versionOfId = dataObj.versionOfId || null\<close>, under the literal
  name \<open>versionOfId\<close>.
\<close>

definition prepareVersion :: "config \<Rightarrow> obj \<Rightarrow> dataObj \<Rightarrow> db \<Rightarrow> mdoc" where
  "prepareVersion cfg dat dataObj d =
     (let versDoc =
            (case findById (shadow d) (versionId dataObj) of
               None \<Rightarrow> newDoc (shadowSchema cfg) (defaults cfg) (nextId d) dat
             | Some versDoc \<Rightarrow> copyData (shadowSchema cfg) dat versDoc)
      in setPath (shadowSchema cfg) versDoc ''versionOfId''
           (if truthy (versionOfId dataObj) then versionOfId dataObj else Null))"

text \<open>The store after \<open>new shadowModel(data)\<close> has drawn an identifier, if it was called.\<close>

definition generated :: "jsval \<Rightarrow> db \<Rightarrow> db" where
  "generated versionId' d =
     (case findById (shadow d) versionId' of
        None \<Rightarrow> d\<lparr>nextId := Suc (nextId d)\<rparr>
      | Some versDoc \<Rightarrow> d)"

text \<open>The callback of \<open>original.save\<close> (lines 332-344 of \<open>src/index.js\<close>).\<close>

definition saveVersion_resave ::
  "config \<Rightarrow> faults \<Rightarrow> obj \<Rightarrow> mdoc \<Rightarrow> err + (collection \<times> mdoc) \<Rightarrow> db \<Rightarrow> mdoc outcome \<times> db" where
  "saveVersion_resave cfg faults versDocObj versSaved saved d =
     (case saved of
        Inl e \<Rightarrow> (Callback (Some e) None, d)
      | Inr (pr, originalSaved) \<Rightarrow>
          let d = d\<lparr>primary := pr\<rparr>
          in if strict_eq (getProp versDocObj (versionOfIdPath cfg)) (ObjectId (docId originalSaved))
             then (Callback None None, d)
             else
               let versSaved = setPath (shadowSchema cfg) versSaved (versionOfIdPath cfg)
                                 (ObjectId (docId originalSaved));
                   d = logOp SaveVersionAgain d
               in (case storeCall faults SaveVersionAgain
                          (saveChecked (shadowSchema cfg) (shadow d) versSaved) of
                     Inl e \<Rightarrow> (Callback (Some e) None, d)
                   | Inr (sh, versSavedAgain) \<Rightarrow>
                       (Callback None (Some versSavedAgain), d\<lparr>shadow := sh\<rparr>)))"

text \<open>The callback of \<open>model.findById(dataObj.versionOfId, ...)\<close> (lines 308-345).\<close>

definition saveVersion_active ::
  "config \<Rightarrow> faults \<Rightarrow> dataObj \<Rightarrow> mdoc \<Rightarrow> db \<Rightarrow> mdoc outcome \<times> db" where
  "saveVersion_active cfg faults dataObj versSaved d =
     (let d = logOp FindActive d
      in case findCall faults FindActive (castFails (versionOfId dataObj)) of
           Some e \<Rightarrow> (Callback (Some e) None, d)
         | None \<Rightarrow>
             let found = findById (primary d) (versionOfId dataObj);
                 original =
                   (case found of
                      None \<Rightarrow>
                        setPath (primarySchema cfg)
                          (newDoc (primarySchema cfg) (defaults cfg) (nextId d) [])
                          (versionIdPath cfg) (ObjectId (docId versSaved))
                    | Some original \<Rightarrow> original);
                 d = (case found of None \<Rightarrow> d\<lparr>nextId := Suc (nextId d)\<rparr> | Some original \<Rightarrow> d)
             in case toString (getPath (primaryShape cfg) original (versionIdPath cfg)) of
                  Inl x \<Rightarrow> (Uncaught x, d)
                | Inr s \<Rightarrow>
                    if s \<noteq> Hex (docId versSaved) then (Callback None (Some versSaved), d)
                    else
                      (case callToObject versSaved of
                         Inl x \<Rightarrow> (Uncaught x, d)
                       | Inr versDocObj \<Rightarrow>
                           let original = copyToActive cfg versDocObj original;
                               d = logOp SaveActive d
                           in saveVersion_resave cfg faults versDocObj versSaved
                                (storeCall faults SaveActive
                                   (saveChecked (primarySchema cfg) (primary d) original)) d))"

text \<open>
  \<open>saveVersion\<close> of \<open>src/index.js\<close> (lines 270-350). The result is what the callback
  receives and the store afterwards. Line 305 calls \<open>versSaved.toObject()\<close> a first
  time, before the Active Document is looked up.
\<close>

definition saveVersion :: "config \<Rightarrow> faults \<Rightarrow> dataObj \<Rightarrow> db \<Rightarrow> mdoc outcome \<times> db" where
  "saveVersion cfg faults dataObj d =
     (let d = logOp FindVersion d
      in case findCall faults FindVersion (castFails (versionId dataObj)) of
           Some e \<Rightarrow> (Callback (Some e) None, d)
         | None \<Rightarrow>
             (case snapshotData (data dataObj) of
                Inl x \<Rightarrow> (Uncaught x, d)
              | Inr dat \<Rightarrow>
                  let versDoc = prepareVersion cfg dat dataObj d;
                      d = logOp SaveVersionDoc (generated (versionId dataObj) d)
                  in (case storeCall faults SaveVersionDoc
                             (saveChecked (shadowSchema cfg) (shadow d) versDoc) of
                        Inl e \<Rightarrow> (Callback (Some e) None, d)
                      | Inr (sh, versSaved) \<Rightarrow>
                          (case callToObject versSaved of
                             Inl x \<Rightarrow> (Uncaught x, d\<lparr>shadow := sh\<rparr>)
                           | Inr versDocObj \<Rightarrow>
                               saveVersion_active cfg faults dataObj versSaved
                                 (d\<lparr>shadow := sh\<rparr>)))))"

text \<open>
  \<open>saveVersion\<close> of the variant (\<open>src/unnamed/part_000\<close>, lines 179-246). It has no
  snapshot guard, its copy loop also skips \<open>schema.options.versionKey\<close>, and it passes
  \<open>versSaved\<close> to the callback when no second save is needed.
\<close>

definition copyToActive_variant :: "config \<Rightarrow> obj \<Rightarrow> mdoc \<Rightarrow> mdoc" where
  "copyToActive_variant cfg versDocObj original =
     fold (\<lambda>key d.
             if key \<noteq> ''_id'' \<and> key \<noteq> versionOfIdPath cfg \<and> Some key \<noteq> versionKey cfg
             then setPath (primarySchema cfg) d key (getProp versDocObj key) else d)
       (map fst versDocObj) original"

definition saveVersion_variant_resave ::
  "config \<Rightarrow> faults \<Rightarrow> obj \<Rightarrow> mdoc \<Rightarrow> err + (collection \<times> mdoc) \<Rightarrow> db \<Rightarrow> mdoc outcome \<times> db" where
  "saveVersion_variant_resave cfg faults versDocObj versSaved saved d =
     (case saved of
        Inl e \<Rightarrow> (Callback (Some e) None, d)
      | Inr (pr, originalSaved) \<Rightarrow>
          let d = d\<lparr>primary := pr\<rparr>
          in if \<not> strict_eq (getProp versDocObj (versionOfIdPath cfg)) (ObjectId (docId originalSaved))
             then
               let versSaved = setPath (shadowSchema cfg) versSaved (versionOfIdPath cfg)
                                 (ObjectId (docId originalSaved));
                   d = logOp SaveVersionAgain d
               in (case storeCall faults SaveVersionAgain
                          (saveChecked (shadowSchema cfg) (shadow d) versSaved) of
                     Inl e \<Rightarrow> (Callback (Some e) None, d)
                   | Inr (sh, versSavedAgain) \<Rightarrow>
                       (Callback None (Some versSavedAgain), d\<lparr>shadow := sh\<rparr>))
             else (Callback None (Some versSaved), d))"

definition saveVersion_variant_active ::
  "config \<Rightarrow> faults \<Rightarrow> dataObj \<Rightarrow> mdoc \<Rightarrow> db \<Rightarrow> mdoc outcome \<times> db" where
  "saveVersion_variant_active cfg faults dataObj versSaved d =
     (let d = logOp FindActive d
      in case findCall faults FindActive (castFails (versionOfId dataObj)) of
           Some e \<Rightarrow> (Callback (Some e) None, d)
         | None \<Rightarrow>
             let found = findById (primary d) (versionOfId dataObj);
                 original =
                   (case found of
                      None \<Rightarrow>
                        setPath (primarySchema cfg)
                          (newDoc (primarySchema cfg) (defaults cfg) (nextId d) [])
                          (versionIdPath cfg) (ObjectId (docId versSaved))
                    | Some original \<Rightarrow> original);
                 d = (case found of None \<Rightarrow> d\<lparr>nextId := Suc (nextId d)\<rparr> | Some original \<Rightarrow> d)
             in case toString (getPath (primaryShape cfg) original (versionIdPath cfg)) of
                  Inl x \<Rightarrow> (Uncaught x, d)
                | Inr s \<Rightarrow>
                    if s = Hex (docId versSaved) then
                      (case callToObject versSaved of
                         Inl x \<Rightarrow> (Uncaught x, d)
                       | Inr versDocObj \<Rightarrow>
                           let original = copyToActive_variant cfg versDocObj original;
                               d = logOp SaveActive d
                           in saveVersion_variant_resave cfg faults versDocObj versSaved
                                (storeCall faults SaveActive
                                   (saveChecked (primarySchema cfg) (primary d) original)) d)
                    else (Callback None (Some versSaved), d))"

definition saveVersion_variant :: "config \<Rightarrow> faults \<Rightarrow> dataObj \<Rightarrow> db \<Rightarrow> mdoc outcome \<times> db" where
  "saveVersion_variant cfg faults dataObj d =
     (let d = logOp FindVersion d
      in case findCall faults FindVersion (castFails (versionId dataObj)) of
           Some e \<Rightarrow> (Callback (Some e) None, d)
         | None \<Rightarrow>
             let versDoc = prepareVersion cfg (data dataObj) dataObj d;
                 d = logOp SaveVersionDoc (generated (versionId dataObj) d)
             in (case storeCall faults SaveVersionDoc
                        (saveChecked (shadowSchema cfg) (shadow d) versDoc) of
                   Inl e \<Rightarrow> (Callback (Some e) None, d)
                 | Inr (sh, versSaved) \<Rightarrow>
                     (case callToObject versSaved of
                        Inl x \<Rightarrow> (Uncaught x, d\<lparr>shadow := sh\<rparr>)
                      | Inr versDocObj \<Rightarrow>
                          saveVersion_variant_active cfg faults dataObj versSaved
                            (d\<lparr>shadow := sh\<rparr>))))"

text \<open>\<open>saveNewVersionOf\<close> (lines 230-239 of \<open>src/index.js\<close>).\<close>

definition saveNewVersionOf :: "config \<Rightarrow> faults \<Rightarrow> jsval \<Rightarrow> obj \<Rightarrow> db \<Rightarrow> mdoc outcome \<times> db" where
  "saveNewVersionOf cfg faults versionOfId' dat d =
     saveVersion cfg faults \<lparr>data = dat, versionId = Null, versionOfId = versionOfId'\<rparr> d"

section \<open>deleteVersion and activateVersion\<close>

text \<open>
  A store-side filter. A condition on \<open>_id\<close> is cast and compared with the document's
  key; a condition on the link field is cast before it is compared; a condition with
  \<open>null\<close> also matches a missing field; any other condition is equality.
\<close>

definition fieldMatches :: "jsval option \<Rightarrow> jsval \<Rightarrow> bool" where
  "fieldMatches stored v =
     (if v = Null \<or> v = Undefined
      then stored = None \<or> stored = Some Null \<or> stored = Some Undefined
      else stored = Some v)"

definition matches :: "schema \<Rightarrow> obj \<Rightarrow> nat \<times> obj \<Rightarrow> bool" where
  "matches s q doc =
     list_all (\<lambda>key. if key = ''_id'' then castId (getProp q key) = Some (fst doc)
                      else fieldMatches (map_of (snd doc) key) (castAt s key (getProp q key)))
       (map fst q)"

text \<open>A filter whose condition on \<open>_id\<close> or on the link field does not cast is refused.\<close>

definition queryCastFails :: "schema \<Rightarrow> obj \<Rightarrow> bool" where
  "queryCastFails s q =
     list_ex (\<lambda>key. (key = ''_id'' \<or> key = idLink s) \<and> castFails (getProp q key)) (map fst q)"

definition loaded :: "nat \<times> obj \<Rightarrow> mdoc" where
  "loaded doc = \<lparr>docId = fst doc, isNew = False, flds = snd doc, adhoc = [], idModified = False\<rparr>"

text \<open>\<open>Model.findOne(filter)\<close> without the error channel: the first match in store order.\<close>

definition findOne :: "schema \<Rightarrow> collection \<Rightarrow> obj \<Rightarrow> mdoc option" where
  "findOne s coll q =
     (case filter (matches s q) coll of [] \<Rightarrow> None | doc # rest \<Rightarrow> Some (loaded doc))"

text \<open>
  \<open>deleteVersion\<close> (lines 367-407 of \<open>src/index.js\<close>). The result \<open>b\<close> stands for the
  object \<open>{'success': b}\<close>.
\<close>

definition deleteVersion :: "config \<Rightarrow> faults \<Rightarrow> jsval \<Rightarrow> db \<Rightarrow> bool outcome \<times> db" where
  "deleteVersion cfg faults id' d =
     (let d = logOp FindOneActive d
      in case findCall faults FindOneActive
                (queryCastFails (primarySchema cfg) [(versionIdPath cfg, id')]) of
           Some e \<Rightarrow> (Callback (Some e) None, d)
         | None \<Rightarrow>
             if findOne (primarySchema cfg) (primary d) [(versionIdPath cfg, id')] \<noteq> None
             then (Callback None (Some False), d)
             else
               let d = logOp FindVersion d
               in (case findCall faults FindVersion (castFails id') of
                     Some e \<Rightarrow> (Callback (Some e) None, d)
                   | None \<Rightarrow>
                       (case findById (shadow d) id' of
                          None \<Rightarrow> (Callback None (Some False), d)
                        | Some version \<Rightarrow>
                            let d = logOp RemoveVersion d
                            in (case faults RemoveVersion of
                                  Some e \<Rightarrow> (Callback (Some (StoreError e)) None, d)
                                | None \<Rightarrow>
                                    (Callback None (Some True),
                                     d\<lparr>shadow := AList.delete (docId version) (shadow d)\<rparr>)))))"

text \<open>
  \<open>activateVersion\<close> (lines 420-465 of \<open>src/index.js\<close>). A missing document is
  reported by passing \<open>{'success': false}\<close> as the callback's first argument.
\<close>

definition activateVersion :: "config \<Rightarrow> faults \<Rightarrow> jsval \<Rightarrow> db \<Rightarrow> mdoc outcome \<times> db" where
  "activateVersion cfg faults id' d =
     (let d = logOp FindVersion d
      in case findCall faults FindVersion (castFails id') of
           Some e \<Rightarrow> (Callback (Some e) None, d)
         | None \<Rightarrow>
             (case findById (shadow d) id' of
                None \<Rightarrow> (Callback (Some SuccessFalse) None, d)
              | Some result \<Rightarrow>
                  let d = logOp FindActive d;
                      owner = getPath (shadowShape cfg) result (versionOfIdPath cfg)
                  in (case findCall faults FindActive (castFails owner) of
                        Some e \<Rightarrow> (Callback (Some e) None, d)
                      | None \<Rightarrow>
                          (case findById (primary d) owner of
                             None \<Rightarrow> (Callback (Some SuccessFalse) None, d)
                           | Some active \<Rightarrow>
                               let versDocObj = toObject result;
                                   active = copyToActive cfg versDocObj active;
                                   active = setPath (primarySchema cfg) active (versionIdPath cfg) id';
                                   d = logOp SaveActive d
                               in (case storeCall faults SaveActive
                                          (saveChecked (primarySchema cfg) (primary d) active) of
                                     Inl e \<Rightarrow> (Callback (Some e) None, d)
                                   | Inr (pr, activeSaved) \<Rightarrow>
                                       (Callback None (Some activeSaved), d\<lparr>primary := pr\<rparr>))))))"

section \<open>upsertVersion and deleteOriginal of the variant\<close>

text \<open>
  \<open>versSaved.remove()\<close> without a callback: the compensating delete. Its own failure
  is not reported to anyone.
\<close>

definition compensate :: "faults \<Rightarrow> mdoc \<Rightarrow> db \<Rightarrow> db" where
  "compensate faults versSaved d =
     (let d = logOp CompensateRemove d
      in case faults CompensateRemove of
           Some e \<Rightarrow> d
         | None \<Rightarrow> d\<lparr>shadow := AList.delete (docId versSaved) (shadow d)\<rparr>)"

text \<open>
  \<open>create_shadow\<close> (lines 370-386 of \<open>src/unnamed/part_000\<close>), given the plain
  object of \<open>originalObj\<close>. The string of \<open>originalObj._id\<close> is cast back to an
  ObjectId by the shadow schema when it is assigned to the link field; a string that
  does not cast makes the save fail.
\<close>

definition create_shadow :: "config \<Rightarrow> faults \<Rightarrow> obj \<Rightarrow> db \<Rightarrow> mdoc outcome \<times> db" where
  "create_shadow cfg faults originalObj d =
     (let input = AList.delete ''_id'' originalObj;
          versDoc = newDoc (shadowSchema cfg) (defaults cfg) (nextId d) input;
          d = d\<lparr>nextId := Suc (nextId d)\<rparr>
      in case toString (getProp originalObj ''_id'') of
           Inl x \<Rightarrow> (Uncaught x, d)
         | Inr s \<Rightarrow>
             let versDoc = setPath (shadowSchema cfg) versDoc (versionOfIdPath cfg)
                             (case s of
                                Hex n \<Rightarrow> ObjectId n
                              | Chars cs \<Rightarrow> Str cs);
                 d = logOp SaveVersionDoc d
             in (case storeCall faults SaveVersionDoc
                        (saveChecked (shadowSchema cfg) (shadow d) versDoc) of
                   Inl e \<Rightarrow> (Callback (Some e) None, d)
                 | Inr (sh, versSaved) \<Rightarrow> (Callback None (Some versSaved), d\<lparr>shadow := sh\<rparr>)))"

text \<open>
  The update document of \<open>findOneAndUpdate(query, dataObj)\<close>: every key of \<open>dataObj\<close>
  that is a path, except \<open>_id\<close>, is set.
\<close>

definition applyUpdate :: "schema \<Rightarrow> obj \<Rightarrow> mdoc \<Rightarrow> mdoc" where
  "applyUpdate s upd doc =
     fold (\<lambda>key d. if key \<noteq> ''_id'' \<and> isPath (fieldsOf s) key
                    then setPath s d key (getProp upd key) else d)
       (map fst upd) doc"

text \<open>
  \<open>upsertVersion\<close> (lines 363-431 of \<open>src/unnamed/part_000\<close>). On an insert, the
  equality conditions of the query that the document does not set itself are part of the
  inserted document.
\<close>

definition upsertVersion ::
  "config \<Rightarrow> faults \<Rightarrow> obj \<Rightarrow> obj option \<Rightarrow> db \<Rightarrow> mdoc outcome \<times> db" where
  "upsertVersion cfg faults dataObj query d =
     (if \<not> truthy (getProp dataObj ''_id'') then
        let original = newDoc (primarySchema cfg) (defaults cfg) (nextId d) dataObj;
            d = d\<lparr>nextId := Suc (nextId d)\<rparr>
        in (case create_shadow cfg faults (toObject original) d of
              (Callback None (Some versSaved), d) \<Rightarrow>
                let original = setPath (primarySchema cfg) original (versionIdPath cfg)
                                 (ObjectId (docId versSaved));
                    q = (case query of None \<Rightarrow> [(''_id'', ObjectId (docId original))] | Some q \<Rightarrow> q);
                    d = logOp UpdateActive d
                in (case findCall faults UpdateActive (queryCastFails (primarySchema cfg) q) of
                      Some e \<Rightarrow> (Callback (Some e) None, compensate faults versSaved d)
                    | None \<Rightarrow>
                        (case findOne (primarySchema cfg) (primary d) q of
                           Some doc \<Rightarrow> (Callback None (Some doc), compensate faults versSaved d)
                         | None \<Rightarrow>
                             (Callback None (Some original),
                              d\<lparr>primary :=
                                  AList.update (docId original)
                                    (flds original @
                                       filter (\<lambda>(key, v). key \<noteq> ''_id'' \<and> map_of (flds original) key = None) q)
                                    (primary d)\<rparr>)))
            | (other, d) \<Rightarrow> (other, d))
      else if \<not> append_only cfg \<and> \<not> truthy (getProp dataObj (versionIdPath cfg))
      then (Callback (Some (Message ''Please specify the revision you would like to change.'')) None, d)
      else
        (case create_shadow cfg faults dataObj d of
           (Callback None (Some versSaved), d) \<Rightarrow>
             let q = (''_id'', getProp dataObj ''_id'') #
                       (if \<not> append_only cfg
                        then [(versionIdPath cfg, getProp dataObj (versionIdPath cfg))] else []);
                 dataObj = AList.update (versionIdPath cfg) (ObjectId (docId versSaved)) dataObj;
                 d = logOp UpdateActive d
             in (case findCall faults UpdateActive (queryCastFails (primarySchema cfg) q) of
                   Some e \<Rightarrow> (Callback (Some e) None, compensate faults versSaved d)
                 | None \<Rightarrow>
                     (case findOne (primarySchema cfg) (primary d) q of
                        None \<Rightarrow>
                          (Callback (Some (NotUpToDate (getProp q (versionIdPath cfg)))) None,
                           compensate faults versSaved d)
                      | Some doc \<Rightarrow>
                          let origSaved = applyUpdate (primarySchema cfg) dataObj doc
                          in (Callback None (Some origSaved),
                              d\<lparr>primary := AList.update (docId origSaved) (flds origSaved) (primary d)\<rparr>)))
         | (other, d) \<Rightarrow> (other, d)))"

text \<open>
  The object that \<open>deleteOriginal\<close> builds from the Active Document (lines 456-467):
  the back-reference is set, the identifier, the active pointer and the version key are
  deleted, the delete flag is set, and the caller's attributes are copied over.
\<close>

definition terminalObj :: "config \<Rightarrow> mdoc \<Rightarrow> obj option \<Rightarrow> obj" where
  "terminalObj cfg origSaved dataObj =
     (let origObj = toObject origSaved;
          origObj = AList.update (versionOfIdPath cfg) (ObjectId (docId origSaved)) origObj;
          origObj = AList.delete ''_id'' origObj;
          origObj = AList.delete (versionIdPath cfg) origObj;
          origObj = (case versionKey cfg of
                       None \<Rightarrow> origObj
                     | Some vk \<Rightarrow> if vk \<noteq> [] then AList.delete vk origObj else origObj);
          origObj = (case deleteFlag cfg of
                       None \<Rightarrow> origObj
                     | Some df \<Rightarrow> if df \<noteq> [] then AList.update df (Bool True) origObj else origObj)
      in case dataObj of
           None \<Rightarrow> origObj
         | Some dat \<Rightarrow> fold (\<lambda>key ob. AList.update key (getProp dat key) ob) (map fst dat) origObj)"

text \<open>An option that holds a name: absent is \<open>undefined\<close>, which is falsy like the empty name.\<close>

definition flagName :: "string option \<Rightarrow> string" where
  "flagName x = (case x of None \<Rightarrow> [] | Some s \<Rightarrow> s)"

text \<open>
  \<open>deleteOriginal\<close> (lines 443-503 of \<open>src/unnamed/part_000\<close>). In the branch of the
  delete flag, the failure path of \<open>model.remove\<close> reads \<open>versSaved\<close>, a name that only
  the callback of the append-only branch binds: reading it throws a ReferenceError
  before \<open>callback(err)\<close> is reached.
\<close>

definition deleteOriginal ::
  "config \<Rightarrow> faults \<Rightarrow> obj \<Rightarrow> obj option \<Rightarrow> db \<Rightarrow> unit outcome \<times> db" where
  "deleteOriginal cfg faults queryObj dataObj d =
     (if \<not> append_only cfg \<and> \<not> truthy (getProp queryObj (versionIdPath cfg))
      then (Callback (Some (Message ''Please specify the revision you would like to change.'')) None, d)
      else
        let d = logOp FindActives d
        in case findCall faults FindActives (queryCastFails (primarySchema cfg) queryObj) of
             Some e \<Rightarrow> (Callback (Some e) None, d)
           | None \<Rightarrow>
               (case filter (matches (primarySchema cfg) queryObj) (primary d) of
                  [] \<Rightarrow> (Callback (Some (NotUpToDate (getProp queryObj (versionIdPath cfg)))) None, d)
                | orig # rest \<Rightarrow>
                    if rest \<noteq> []
                    then (Callback (Some (Message ''Cannot delete more than one document.'')) None, d)
                    else
                      let origSaved = loaded orig;
                          origObj = terminalObj cfg origSaved dataObj
                      in if append_only cfg then
                           let versDoc = newDoc (shadowSchema cfg) (defaults cfg) (nextId d) origObj;
                               d = logOp SaveVersionDoc (d\<lparr>nextId := Suc (nextId d)\<rparr>)
                           in (case storeCall faults SaveVersionDoc
                                      (saveChecked (shadowSchema cfg) (shadow d) versDoc) of
                                 Inl e \<Rightarrow> (Callback (Some e) None, d)
                               | Inr (sh, versSaved) \<Rightarrow>
                                   let d = logOp RemoveActive (d\<lparr>shadow := sh\<rparr>)
                                   in (case faults RemoveActive of
                                         Some e \<Rightarrow>
                                           (Callback (Some (StoreError e)) None,
                                            compensate faults versSaved d)
                                       | None \<Rightarrow>
                                           (Callback None None,
                                            d\<lparr>primary := AList.delete (docId origSaved) (primary d)\<rparr>)))
                         else if flagName (deleteFlag cfg) \<noteq> [] then
                           let d = logOp UpdateVersion d
                           in (case findCall faults UpdateVersion
                                      (castFails (getProp queryObj (versionIdPath cfg))) of
                                 Some e \<Rightarrow> (Callback (Some e) None, d)
                               | None \<Rightarrow>
                                   (case findById (shadow d) (getProp queryObj (versionIdPath cfg)) of
                                      None \<Rightarrow>
                                        (Callback (Some (Message ''Your version documents are inconsistent.'')) None, d)
                                    | Some version \<Rightarrow>
                                        let savedVersion =
                                              applyUpdate (shadowSchema cfg)
                                                [(flagName (deleteFlag cfg), Bool True)] version;
                                            d = d\<lparr>shadow := AList.update (docId savedVersion)
                                                               (flds savedVersion) (shadow d)\<rparr>;
                                            d = logOp RemoveActive d
                                        in (case faults RemoveActive of
                                              Some e \<Rightarrow> (Uncaught ReferenceError, d)
                                            | None \<Rightarrow>
                                                (Callback None None,
                                                 d\<lparr>primary := AList.delete (docId origSaved) (primary d)\<rparr>))))
                         else (Callback (Some (Message ''Do not know what to do, both append_only and delete_flag are not set.'')) None, d)))"

section \<open>A small configuration and store for the examples\<close>

text \<open>
  A schema with two declared fields and no defaults, versioned with the default link
  names; one Active Document (identifier 1) whose active version is the Version Record
  with identifier 10.
\<close>

definition notePaths :: shape where
  "notePaths = [(''_id'', ObjectIdType), (''title'', Declared ''String''), (''deck'', Declared ''String'')]"

definition noteOptions :: options where
  "noteOptions = \<lparr>mongoose = True, optVersionIdPath = None, optVersionOfIdPath = None,
                   optDeleteFlag = None\<rparr>"

definition noteConfig :: config where
  "noteConfig =
     \<lparr>versionIdPath = ''versionId'', versionOfIdPath = ''versionOfId'',
      shadowShape = [(''title'', Declared ''String''), (''deck'', Declared ''String''),
                     (''versionOfId'', ObjectIdType)],
      primaryShape = [(''_id'', ObjectIdType), (''title'', Declared ''String''),
                      (''deck'', Declared ''String''), (''versionId'', ObjectIdType)],
      defaults = [], versionKey = Some ''__v'', append_only = False, deleteFlag = None\<rparr>"

definition noteDb :: db where
  "noteDb =
     \<lparr>primary = [(1, [(''title'', Str ''A''), (''deck'', Str ''x''), (''versionId'', ObjectId 10)])],
      shadow = [(10, [(''title'', Str ''A''), (''deck'', Str ''x''), (''versionOfId'', ObjectId 1)])],
      nextId = 100, log = []\<rparr>"

definition noFaults :: faults where
  "noFaults op = None"

text \<open>
  The same schema under the variant with a delete flag, and a store whose removal of the
  Active Document fails.
\<close>

definition flaggedConfig :: config where
  "flaggedConfig =
     noteConfig\<lparr>shadowShape := shadowShape noteConfig @ [(''deleted'', BooleanType)],
                deleteFlag := Some ''deleted''\<rparr>"

definition removeFails :: faults where
  "removeFails op = (if op = RemoveActive then Some ''connection lost'' else None)"

text \<open>
  Identifiers as a request hands them over: strings of 24 hexadecimal digits. A store
  with another Version Record of the Active Document 1, and a Version Record whose
  Active Document 2 does not exist.
\<close>

definition hexOne :: string where
  "hexOne = ''000000000000000000000001''"

definition hexTen :: string where
  "hexTen = ''00000000000000000000000a''"

definition hexEleven :: string where
  "hexEleven = ''00000000000000000000000b''"

definition noteDbMore :: db where
  "noteDbMore =
     \<lparr>primary = [(1, [(''title'', Str ''A''), (''deck'', Str ''x''), (''versionId'', ObjectId 10)])],
      shadow = [(10, [(''title'', Str ''A''), (''deck'', Str ''x''), (''versionOfId'', ObjectId 1)]),
                (11, [(''title'', Str ''C''), (''deck'', Str ''y''), (''versionOfId'', ObjectId 1)]),
                (12, [(''title'', Str ''D''), (''versionOfId'', ObjectId 2)])],
      nextId = 100, log = []\<rparr>"

section \<open>Properties\<close>

lemmas store_defs =
  logOp_def storeCall_def findCall_def isPath_def getPath_def setPath_def newDoc_def
  toObject_def callToObject_def findById_def saveDoc_def saveChecked_def invalid_def
  getProp_def loaded_def findOne_def matches_def queryCastFails_def fieldMatches_def
  compensate_def generated_def flagName_def shadowSchema_def primarySchema_def castAt_def
  castValue_def

lemmas example_defs =
  noteConfig_def noteDb_def noFaults_def flaggedConfig_def removeFails_def noteDbMore_def

lemma hex_examples [simp]:
  "isHex24 hexOne" "parseHex hexOne = 1"
  "isHex24 hexTen" "parseHex hexTen = 10"
  "isHex24 hexEleven" "parseHex hexEleven = 11"
  "hexOne \<noteq> []" "hexTen \<noteq> []" "hexEleven \<noteq> []"
  by (simp_all add: hexOne_def hexTen_def hexEleven_def isHex24_def parseHex_def hexDigits_def)

lemma castId_hex:
  "castId (Str hexOne) = Some 1"
  "castId (Str hexTen) = Some 10"
  "castId (Str hexEleven) = Some 11"
  by simp_all

lemma castFails_castId: "castId v = Some n \<Longrightarrow> \<not> castFails v"
  by (cases v) (simp_all split: if_splits)

lemma castValue_castId: "castId v = Some n \<Longrightarrow> castValue v = ObjectId n"
  by (simp add: castValue_def)

lemma castFails_castValue [simp]: "castFails (castValue v) = castFails v"
  by (cases v) (simp_all add: castValue_def)

lemma findCall_simps [simp]:
  "findCall faults op False = (case faults op of None \<Rightarrow> None | Some e \<Rightarrow> Some (StoreError e))"
  "findCall faults op True = Some CastError"
  by (simp_all add: findCall_def)
lemma toObjectGuard_iff:
  "toObjectGuard dat \<longleftrightarrow> map_of dat ''toObject'' = Some (Str ''function'')"
proof (cases "map_of dat ''toObject''")
  case None
  then show ?thesis by (simp add: toObjectGuard_def getProp_def)
next
  case (Some v)
  then show ?thesis by (cases v) (auto simp add: toObjectGuard_def getProp_def)
qed


lemma snapshotData_cases:
  "snapshotData dat =
     (if map_of dat ''toObject'' = Some (Str ''function'') then Inl TypeError else Inr dat)"
  by (simp add: snapshotData_def toObjectGuard_iff callNoArgs_def getProp_def)

subsection \<open>The snapshot guard\<close>

text \<open>
  C10, as stated: the guard of the snapshot branch is false for every \<open>data\<close>. It is
  true for the object whose property \<open>toObject\<close> is the string \<open>"function"\<close>; the call
  in the branch then throws.
\<close>

theorem C10_guard_counterexample:
  "toObjectGuard [(''toObject'', Str ''function'')] \<and>
   snapshotData [(''toObject'', Str ''function'')] = Inl TypeError"
  by (simp add: snapshotData_def toObjectGuard_def callNoArgs_def getProp_def)

text \<open>
  C10, amended: the guard compares the string \<open>"function"\<close> with the value of
  \<open>data.toObject\<close>. It holds only when that value is the string \<open>"function"\<close>, and then
  the call \<open>data.toObject()\<close> throws a TypeError. For every other \<open>data\<close>, a model
  instance with its \<open>toObject\<close> method included, the guard is false and \<open>data\<close> is
  used as it is: no snapshot is ever taken.
\<close>

theorem C10_snapshot_never_taken:
  "(map_of dat ''toObject'' = Some (Str ''function'') \<longrightarrow>
      toObjectGuard dat \<and> snapshotData dat = Inl TypeError) \<and>
   (map_of dat ''toObject'' \<noteq> Some (Str ''function'') \<longrightarrow>
      \<not> toObjectGuard dat \<and> snapshotData dat = Inr dat)"
  by (simp add: snapshotData_cases toObjectGuard_iff)

theorem C10_snapshot_never_taken_witness:
  "map_of [(''title'', Str ''A''), (''toObject'', Fun [(''title'', Str ''snapshot'')])] ''toObject''
     \<noteq> Some (Str ''function'') \<and>
   \<not> toObjectGuard [(''title'', Str ''A''), (''toObject'', Fun [(''title'', Str ''snapshot'')])] \<and>
   snapshotData [(''title'', Str ''A''), (''toObject'', Fun [(''title'', Str ''snapshot'')])]
     = Inr [(''title'', Str ''A''), (''toObject'', Fun [(''title'', Str ''snapshot'')])]"
  using C10_snapshot_never_taken
    [of "[(''title'', Str ''A''), (''toObject'', Fun [(''title'', Str ''snapshot'')])]"]
  by simp

lemma map_of_mirrored:
  "map_of (mirrored paths) key = (if key = ''_id'' then None else map_of paths key)"
  unfolding mirrored_def by (induction paths) auto

lemma plugin_note: "plugin (Some noteOptions) notePaths = Inr (shadowShape noteConfig, primaryShape noteConfig)"
  by (simp add: plugin_def noteOptions_def notePaths_def noteConfig_def versionIdPathOf_def versionOfIdPathOf_def orDefault_def mirrored_def)

subsection \<open>Plugin setup\<close>

text \<open>
  C6, as stated: applying the plugin fails when the configured \<open>versionId\<close> name is
  already declared in the primary schema. The setup of the variant does not fail on a
  schema that declares \<open>versionId\<close>: it keeps the declaration, which the shadow shape
  then mirrors.
\<close>

theorem C6_variant_counterexample:
  "map_of [(''_id'', ObjectIdType), (''versionId'', Declared ''String'')]
      (versionIdPathOf noteOptions) \<noteq> None \<and>
   plugin_variant (Some noteOptions) [(''_id'', ObjectIdType), (''versionId'', Declared ''String'')]
     = Some ([(''versionId'', Declared ''String''), (''versionOfId'', ObjectIdType)],
             [(''_id'', ObjectIdType), (''versionId'', Declared ''String'')])"
  by (simp add: plugin_variant_def noteOptions_def versionIdPathOf_def versionOfIdPathOf_def
      orDefault_def mirrored_def Let_def)

text \<open>
  C6, amended: the setup of \<open>src/index.js\<close> fails with a configuration error when
  the configured \<open>versionId\<close> name is already declared in the primary schema or the
  configured \<open>versionOfId\<close> name is already among the mirrored shadow fields; otherwise
  every declared field except \<open>_id\<close> is copied to the shadow shape, \<open>versionOfId\<close> is
  added to the shadow shape and \<open>versionId\<close> to the primary shape. The setup of the
  variant never fails on a collision: it keeps a declared link field and adds only the
  missing ones.
\<close>

theorem C6_plugin:
  assumes "mongoose opts"
  shows "(map_of paths (versionIdPathOf opts) \<noteq> None \<or>
          map_of (mirrored paths) (versionOfIdPathOf opts) \<noteq> None
            \<longrightarrow> (\<exists>msg. plugin (Some opts) paths = Inl (PluginError msg))) \<and>
         (map_of paths (versionIdPathOf opts) = None \<and>
          map_of (mirrored paths) (versionOfIdPathOf opts) = None
            \<longrightarrow> (\<exists>shadowFields primaryFields.
                  plugin (Some opts) paths = Inr (shadowFields, primaryFields) \<and>
                  (\<forall>key. map_of shadowFields key =
                     (if key = versionOfIdPathOf opts then Some ObjectIdType
                      else if key = ''_id'' then None else map_of paths key)) \<and>
                  (\<forall>key. map_of primaryFields key =
                     (if key = versionIdPathOf opts then Some ObjectIdType else map_of paths key)))) \<and>
         (\<exists>shadowFields primaryFields.
            plugin_variant (Some opts) paths = Some (shadowFields, primaryFields) \<and>
            (optDeleteFlag opts = None \<longrightarrow>
               (\<forall>key. map_of shadowFields key =
                  (if map_of (mirrored paths) key \<noteq> None then map_of (mirrored paths) key
                   else if key = versionOfIdPathOf opts then Some ObjectIdType else None))) \<and>
            (\<forall>key. map_of primaryFields key =
               (if map_of paths key \<noteq> None then map_of paths key
                else if key = versionIdPathOf opts then Some ObjectIdType else None)))"
  using assms
  apply (intro conjI)
  subgoal by (auto simp add: plugin_def Let_def)
  subgoal by (auto simp add: plugin_def Let_def update_conv' map_of_mirrored)
  subgoal
    by (auto simp add: plugin_variant_def Let_def update_conv')
  done


theorem C6_plugin_witness:
  "mongoose noteOptions \<and>
   (\<exists>shadowFields primaryFields.
      plugin (Some noteOptions) notePaths = Inr (shadowFields, primaryFields) \<and>
      map_of shadowFields ''versionOfId'' = Some ObjectIdType \<and>
      map_of shadowFields ''_id'' = None \<and>
      map_of shadowFields ''title'' = Some (Declared ''String'') \<and>
      map_of primaryFields ''versionId'' = Some ObjectIdType)"
proof -
  have m: "mongoose noteOptions" by (simp add: noteOptions_def)
  have vi: "versionIdPathOf noteOptions = ''versionId''"
    by (simp add: versionIdPathOf_def noteOptions_def orDefault_def)
  have vo: "versionOfIdPathOf noteOptions = ''versionOfId''"
    by (simp add: versionOfIdPathOf_def noteOptions_def orDefault_def)
  have free: "map_of notePaths (versionIdPathOf noteOptions) = None \<and>
              map_of (mirrored notePaths) (versionOfIdPathOf noteOptions) = None"
    by (simp add: vi vo notePaths_def mirrored_def)
  from C6_plugin [OF m, of notePaths] free
  obtain shadowFields primaryFields where
    p: "plugin (Some noteOptions) notePaths = Inr (shadowFields, primaryFields)" and
    s: "\<forall>key. map_of shadowFields key =
          (if key = versionOfIdPathOf noteOptions then Some ObjectIdType
           else if key = ''_id'' then None else map_of notePaths key)" and
    q: "\<forall>key. map_of primaryFields key =
          (if key = versionIdPathOf noteOptions then Some ObjectIdType else map_of notePaths key)"
    by blast
  show ?thesis using m p s q by (simp add: vi vo notePaths_def)
qed

lemmas saveVersion_defs =
  saveVersion_def saveVersion_active_def saveVersion_resave_def
  saveVersion_variant_def saveVersion_variant_active_def saveVersion_variant_resave_def
  prepareVersion_def copyData_def copyToActive_def copyToActive_variant_def
  snapshotData_def toObjectGuard_def callNoArgs_def

subsection \<open>The second save of the Version Record\<close>

text \<open>
  C4 at a failing input: the Active Document 1 exists and its active version is the
  Version Record 10. Saving that version promotes it, creates no Active Document, and
  still saves the Version Record a second time, in \<open>src/index.js\<close> and in the variant.
\<close>

theorem C4_resave_without_new_lineage:
  "findById (primary noteDb) (ObjectId 1) \<noteq> None \<and>
   log (snd (saveVersion noteConfig noFaults
          \<lparr>data = [(''title'', Str ''B'')], versionId = ObjectId 10, versionOfId = ObjectId 1\<rparr> noteDb))
     = [FindVersion, SaveVersionDoc, FindActive, SaveActive, SaveVersionAgain] \<and>
   map fst (primary (snd (saveVersion noteConfig noFaults
          \<lparr>data = [(''title'', Str ''B'')], versionId = ObjectId 10, versionOfId = ObjectId 1\<rparr> noteDb)))
     = [1] \<and>
   log (snd (saveVersion_variant noteConfig noFaults
          \<lparr>data = [(''title'', Str ''B'')], versionId = ObjectId 10, versionOfId = ObjectId 1\<rparr> noteDb))
     = [FindVersion, SaveVersionDoc, FindActive, SaveActive, SaveVersionAgain]"
  by (simp add: saveVersion_defs store_defs example_defs Let_def)

subsection \<open>A failing removal in deleteOriginal\<close>

text \<open>
  C9 at a failing input: under the delete flag and without append-only mode, the removal
  of the Active Document fails. The callback is never called: the failure path throws a
  ReferenceError. In append-only mode the same store error reaches the callback.
\<close>

theorem C9_remove_failure_not_delivered:
  "fst (deleteOriginal flaggedConfig removeFails
          [(''_id'', ObjectId 1), (''versionId'', ObjectId 10)] None noteDb)
     = Uncaught ReferenceError \<and>
   fst (deleteOriginal (flaggedConfig\<lparr>append_only := True\<rparr>) removeFails
          [(''_id'', ObjectId 1), (''versionId'', ObjectId 10)] None noteDb)
     = Callback (Some (StoreError ''connection lost'')) None"
  by (simp add: deleteOriginal_def terminalObj_def applyUpdate_def store_defs example_defs Let_def)

subsection \<open>Assignments to a document\<close>

lemma setPath_frame [simp]:
  "docId (setPath s d key v) = docId d"
  "isNew (setPath s d key v) = isNew d"
  by (simp_all add: setPath_def)

lemma setPath_idModified:
  "key \<noteq> ''_id'' \<Longrightarrow> idModified (setPath s d key v) = idModified d"
  by (simp add: setPath_def)

lemma setPath_flds:
  "map_of (flds (setPath s d key v)) k =
     (if k = key \<and> key \<noteq> ''_id'' \<and> isPath (fieldsOf s) key then Some (castAt s key v)
      else map_of (flds d) k)"
  by (simp add: setPath_def update_conv')


lemma fold_setPath_frame:
  "docId (fold (\<lambda>key d. if P key then setPath s d key (g key) else d) ks d) = docId d \<and>
   isNew (fold (\<lambda>key d. if P key then setPath s d key (g key) else d) ks d) = isNew d"
  by (induction ks arbitrary: d) simp_all

lemma fold_setPath_idModified:
  assumes "\<And>key. P key \<Longrightarrow> key \<noteq> ''_id''"
  shows "idModified (fold (\<lambda>key d. if P key then setPath s d key (g key) else d) ks d)
           = idModified d"
  using assms by (induction ks arbitrary: d) (simp_all add: setPath_idModified)

lemma fold_setPath_flds:
  "map_of (flds (fold (\<lambda>key d. if P key then setPath s d key (g key) else d) ks d)) k =
     (if k \<in> set ks \<and> P k \<and> k \<noteq> ''_id'' \<and> isPath (fieldsOf s) k then Some (castAt s k (g k))
      else map_of (flds d) k)"
proof (induction ks arbitrary: d)
  case Nil
  then show ?case by simp
next
  case (Cons key ks)
  show ?case
    by (auto simp add: Cons.IH setPath_flds)
qed

lemma copyToActive_frame:
  "docId (copyToActive cfg ob d) = docId d"
  "isNew (copyToActive cfg ob d) = isNew d"
  "idModified (copyToActive cfg ob d) = idModified d"
  unfolding copyToActive_def
  using fold_setPath_frame [of "\<lambda>key. key \<noteq> ''_id'' \<and> key \<noteq> versionOfIdPath cfg"]
        fold_setPath_idModified [of "\<lambda>key. key \<noteq> ''_id'' \<and> key \<noteq> versionOfIdPath cfg"]
  by simp_all

lemma copyToActive_flds:
  "map_of (flds (copyToActive cfg ob d)) k =
     (if map_of ob k \<noteq> None \<and> k \<noteq> ''_id'' \<and> k \<noteq> versionOfIdPath cfg \<and> isPath (primaryShape cfg) k
      then map_option (castAt (primarySchema cfg) k) (map_of ob k) else map_of (flds d) k)"
  unfolding copyToActive_def
  using fold_setPath_flds [of "\<lambda>key. key \<noteq> ''_id'' \<and> key \<noteq> versionOfIdPath cfg"
      "primarySchema cfg" "getProp ob" "map fst ob" d k]
  by (auto simp add: getProp_def map_of_eq_None_iff image_iff primarySchema_def split: option.splits)

lemma castAt_other: "key \<noteq> idLink s \<Longrightarrow> castAt s key v = v"
  by (simp add: castAt_def)

lemma castAt_primary [simp]: "key \<noteq> versionIdPath cfg \<Longrightarrow> castAt (primarySchema cfg) key v = v"
  by (simp add: castAt_def primarySchema_def)

lemma castAt_shadow [simp]: "key \<noteq> versionOfIdPath cfg \<Longrightarrow> castAt (shadowSchema cfg) key v = v"
  by (simp add: castAt_def shadowSchema_def)

lemma fieldsOf_schemas [simp]:
  "fieldsOf (primarySchema cfg) = primaryShape cfg"
  "fieldsOf (shadowSchema cfg) = shadowShape cfg"
  "idLink (primarySchema cfg) = versionIdPath cfg"
  "idLink (shadowSchema cfg) = versionOfIdPath cfg"
  by (simp_all add: primarySchema_def shadowSchema_def)

lemma map_of_toObject:
  "map_of (toObject d) k = (if k = ''_id'' then Some (ObjectId (docId d)) else map_of (flds d) k)"
  by (simp add: toObject_def)

lemma findById_Some:
  "findById coll v = Some doc \<Longrightarrow>
     castId v = Some (docId doc) \<and> map_of coll (docId doc) = Some (flds doc) \<and>
     \<not> isNew doc \<and> \<not> idModified doc \<and> adhoc doc = []"
  by (auto simp add: findById_def split: option.splits)

lemma findById_castId:
  "castId v = Some n \<Longrightarrow>
   findById coll v =
     (case map_of coll n of
        None \<Rightarrow> None
      | Some f \<Rightarrow> Some \<lparr>docId = n, isNew = False, flds = f, adhoc = [], idModified = False\<rparr>)"
  by (simp add: findById_def)

lemma saveDoc_loaded:
  "\<not> isNew doc \<Longrightarrow> \<not> idModified doc \<Longrightarrow>
     saveDoc coll doc = Inr (AList.update (docId doc) (flds doc) coll, doc)"
  by (simp add: saveDoc_def)

lemma saveChecked_loaded:
  "\<not> isNew doc \<Longrightarrow> \<not> idModified doc \<Longrightarrow> \<not> castFails (getProp (flds doc) (idLink s)) \<Longrightarrow>
     saveChecked s coll doc = Inr (AList.update (docId doc) (flds doc) coll, doc)"
  by (simp add: saveChecked_def invalid_def saveDoc_loaded)

lemma saveChecked_Inr:
  "saveChecked s coll doc = Inr (coll', doc') \<Longrightarrow>
     saveDoc coll doc = Inr (coll', doc') \<and> docId doc' = docId doc \<and> flds doc' = flds doc \<and>
     adhoc doc' = adhoc doc \<and> idModified doc' = idModified doc \<and> \<not> isNew doc' \<and>
     coll' = AList.update (docId doc) (flds doc) coll"
  by (auto simp add: saveChecked_def saveDoc_def split: if_splits)

lemma toString_castId: "castId x = Some v \<Longrightarrow> toString x = Inr (Hex v)"
  by (cases x) (simp_all split: if_splits)

lemma findOne_versionId:
  assumes "versionIdPath cfg \<noteq> ''_id''" and "castId id' = Some n"
  shows "findOne (primarySchema cfg) coll [(versionIdPath cfg, id')] \<noteq> None \<longleftrightarrow>
           (\<exists>doc \<in> set coll. map_of (snd doc) (versionIdPath cfg) = Some (ObjectId n))"
proof -
  let ?q = "[(versionIdPath cfg, id')]"
  have m: "\<And>doc. matches (primarySchema cfg) ?q doc
                  \<longleftrightarrow> map_of (snd doc) (versionIdPath cfg) = Some (ObjectId n)"
    using assms
    by (simp add: matches_def fieldMatches_def getProp_def castAt_def castValue_castId)
  have "findOne (primarySchema cfg) coll ?q \<noteq> None
          \<longleftrightarrow> filter (matches (primarySchema cfg) ?q) coll \<noteq> []"
    by (simp add: findOne_def split: list.splits)
  also have "\<dots> \<longleftrightarrow> (\<exists>doc \<in> set coll. matches (primarySchema cfg) ?q doc)"
    by (simp add: filter_empty_conv)
  finally show ?thesis by (simp add: m)
qed

lemma queryCastFails_versionId:
  "castId id' = Some n \<Longrightarrow> \<not> queryCastFails s [(key, id')]"
  by (simp add: queryCastFails_def getProp_def castFails_castId)

subsection \<open>deleteVersion\<close>

text \<open>
  C2: for every store and every identifier, given as an ObjectId or as the string of 24
  hexadecimal digits that a request carries, \<open>deleteVersion\<close> removes no Version Record
  that some Active Document's \<open>versionId\<close> references, and answers
  \<open>{success: false}\<close> there; when no Active Document references it and the Version
  Record is absent, the answer is \<open>{success: false}\<close> too; otherwise the Version Record
  is deleted and the answer is \<open>{success: true}\<close>. The answers are those of a call whose
  store calls report no error; the referenced record stays whatever the store reports.
\<close>

theorem C2_deleteVersion:
  assumes "versionIdPath cfg \<noteq> ''_id''" and "castId id' = Some n"
  shows
    "((\<exists>doc \<in> set (primary d). map_of (snd doc) (versionIdPath cfg) = Some (ObjectId n)) \<longrightarrow>
        shadow (snd (deleteVersion cfg faults id' d)) = shadow d \<and>
        (faults FindOneActive = None \<longrightarrow>
           fst (deleteVersion cfg faults id' d) = Callback None (Some False))) \<and>
     (\<not> (\<exists>doc \<in> set (primary d). map_of (snd doc) (versionIdPath cfg) = Some (ObjectId n)) \<and>
      faults FindOneActive = None \<and> faults FindVersion = None \<and> faults RemoveVersion = None \<longrightarrow>
        (map_of (shadow d) n = None \<longrightarrow>
           fst (deleteVersion cfg faults id' d) = Callback None (Some False) \<and>
           shadow (snd (deleteVersion cfg faults id' d)) = shadow d) \<and>
        (map_of (shadow d) n \<noteq> None \<longrightarrow>
           fst (deleteVersion cfg faults id' d) = Callback None (Some True) \<and>
           shadow (snd (deleteVersion cfg faults id' d)) = AList.delete n (shadow d) \<and>
           map_of (shadow (snd (deleteVersion cfg faults id' d))) n = None)) \<and>
     primary (snd (deleteVersion cfg faults id' d)) = primary d"
proof -
  let ?q = "[(versionIdPath cfg, id')]"
  have f: "findOne (primarySchema cfg) (primary d) ?q \<noteq> None \<longleftrightarrow>
             (\<exists>doc \<in> set (primary d). map_of (snd doc) (versionIdPath cfg) = Some (ObjectId n))"
    using assms by (rule findOne_versionId)
  have c: "\<not> queryCastFails (primarySchema cfg) ?q" "\<not> castFails id'"
    using assms(2) by (simp_all add: queryCastFails_versionId castFails_castId)
  have fc: "\<And>op. findCall faults op False
              = (case faults op of None \<Rightarrow> None | Some e \<Rightarrow> Some (StoreError e))"
    by (simp add: findCall_def)
  show ?thesis
  proof (cases "findOne (primarySchema cfg) (primary d) ?q = None")
    case True
    with f have nr: "\<not> (\<exists>doc \<in> set (primary d). map_of (snd doc) (versionIdPath cfg) = Some (ObjectId n))"
      by simp
    have "primary (snd (deleteVersion cfg faults id' d)) = primary d"
      and "faults FindOneActive = None \<and> faults FindVersion = None \<and> faults RemoveVersion = None \<longrightarrow>
        (map_of (shadow d) n = None \<longrightarrow>
           fst (deleteVersion cfg faults id' d) = Callback None (Some False) \<and>
           shadow (snd (deleteVersion cfg faults id' d)) = shadow d) \<and>
        (map_of (shadow d) n \<noteq> None \<longrightarrow>
           fst (deleteVersion cfg faults id' d) = Callback None (Some True) \<and>
           shadow (snd (deleteVersion cfg faults id' d)) = AList.delete n (shadow d) \<and>
           map_of (shadow (snd (deleteVersion cfg faults id' d))) n = None)"
      using True c
      by (auto simp add: deleteVersion_def logOp_def Let_def fc findById_castId [OF assms(2)]
               delete_conv' split: option.splits)
    with nr show ?thesis by blast
  next
    case False
    with f have r: "\<exists>doc \<in> set (primary d). map_of (snd doc) (versionIdPath cfg) = Some (ObjectId n)"
      by simp
    have "shadow (snd (deleteVersion cfg faults id' d)) = shadow d"
      and "faults FindOneActive = None \<longrightarrow>
           fst (deleteVersion cfg faults id' d) = Callback None (Some False)"
      and "primary (snd (deleteVersion cfg faults id' d)) = primary d"
      using False c
      by (auto simp add: deleteVersion_def logOp_def Let_def fc split: option.splits)
    with r show ?thesis by blast
  qed
qed

theorem C2_deleteVersion_witness:
  "versionIdPath noteConfig \<noteq> ''_id'' \<and> castId (Str hexTen) = Some 10 \<and>
   (\<exists>doc \<in> set (primary noteDbMore). map_of (snd doc) (versionIdPath noteConfig) = Some (ObjectId 10)) \<and>
   fst (deleteVersion noteConfig noFaults (Str hexTen) noteDbMore) = Callback None (Some False) \<and>
   shadow (snd (deleteVersion noteConfig noFaults (Str hexTen) noteDbMore)) = shadow noteDbMore \<and>
   castId (Str hexEleven) = Some 11 \<and>
   \<not> (\<exists>doc \<in> set (primary noteDbMore). map_of (snd doc) (versionIdPath noteConfig) = Some (ObjectId 11)) \<and>
   map_of (shadow noteDbMore) 11 \<noteq> None \<and>
   fst (deleteVersion noteConfig noFaults (Str hexEleven) noteDbMore) = Callback None (Some True) \<and>
   map_of (shadow (snd (deleteVersion noteConfig noFaults (Str hexEleven) noteDbMore))) 11 = None \<and>
   map_of (shadow noteDbMore) 13 = None \<and>
   fst (deleteVersion noteConfig noFaults (ObjectId 13) noteDbMore) = Callback None (Some False)"
proof -
  have v: "versionIdPath noteConfig \<noteq> ''_id''" by (simp add: noteConfig_def)
  have c10: "castId (Str hexTen) = Some 10" and c11: "castId (Str hexEleven) = Some 11"
    and c13: "castId (ObjectId 13) = Some 13"
    by simp_all
  show ?thesis
    using v c10 c11
      C2_deleteVersion [OF v c10, of noteDbMore noFaults]
      C2_deleteVersion [OF v c11, of noteDbMore noFaults]
      C2_deleteVersion [OF v c13, of noteDbMore noFaults]
    by (simp add: noteConfig_def noteDbMore_def noFaults_def)
qed

subsection \<open>activateVersion\<close>

text \<open>
  C5: for an identifier given as an ObjectId or as its string of 24 hexadecimal digits,
  \<open>activateVersion\<close> delivers a failure result when no Version Record has that
  identifier, and when the Active Document that the record's \<open>versionOfId\<close> names is
  absent; otherwise every field of the Version Record except the identifier and the
  back-reference is copied onto the Active Document, its \<open>versionId\<close> is set to the
  given identifier, it is persisted, and the saved Active Document is delivered.
\<close>

theorem C5_activateVersion:
  assumes "isPath (primaryShape cfg) (versionIdPath cfg)" and "versionIdPath cfg \<noteq> ''_id''"
    and "castId id' = Some n"
  shows
    "(faults FindVersion = None \<and> map_of (shadow d) n = None \<longrightarrow>
        fst (activateVersion cfg faults id' d) = Callback (Some SuccessFalse) None \<and>
        primary (snd (activateVersion cfg faults id' d)) = primary d) \<and>
     (\<forall>result.
        faults FindVersion = None \<and> faults FindActive = None \<and>
        findById (shadow d) id' = Some result \<and>
        \<not> castFails (getPath (shadowShape cfg) result (versionOfIdPath cfg)) \<and>
        findById (primary d) (getPath (shadowShape cfg) result (versionOfIdPath cfg)) = None \<longrightarrow>
          fst (activateVersion cfg faults id' d) = Callback (Some SuccessFalse) None \<and>
          primary (snd (activateVersion cfg faults id' d)) = primary d) \<and>
     (\<forall>result active.
        faults FindVersion = None \<and> faults FindActive = None \<and> faults SaveActive = None \<and>
        findById (shadow d) id' = Some result \<and>
        findById (primary d) (getPath (shadowShape cfg) result (versionOfIdPath cfg)) = Some active \<and>
        map_of (flds result) ''save'' = None \<longrightarrow>
          (\<exists>activeSaved.
             fst (activateVersion cfg faults id' d) = Callback None (Some activeSaved) \<and>
             docId activeSaved = docId active \<and>
             map_of (primary (snd (activateVersion cfg faults id' d))) (docId active)
               = Some (flds activeSaved) \<and>
             map_of (flds activeSaved) (versionIdPath cfg) = Some (ObjectId n) \<and>
             (\<forall>key. key \<noteq> ''_id'' \<and> key \<noteq> versionOfIdPath cfg \<and> key \<noteq> versionIdPath cfg \<and>
                    isPath (primaryShape cfg) key \<longrightarrow>
                    map_of (flds activeSaved) key =
                      (case map_of (flds result) key of
                         Some v \<Rightarrow> Some v
                       | None \<Rightarrow> map_of (flds active) key))))"
proof (intro conjI allI impI)
  have nc: "\<not> castFails id'" using assms(3) by (rule castFails_castId)
  {
    assume "faults FindVersion = None \<and> map_of (shadow d) n = None"
    then show "fst (activateVersion cfg faults id' d) = Callback (Some SuccessFalse) None"
      and "primary (snd (activateVersion cfg faults id' d)) = primary d"
      using nc by (simp_all add: activateVersion_def logOp_def Let_def findById_castId [OF assms(3)])
  }
  {
    fix result
    assume h: "faults FindVersion = None \<and> faults FindActive = None \<and>
        findById (shadow d) id' = Some result \<and>
        \<not> castFails (getPath (shadowShape cfg) result (versionOfIdPath cfg)) \<and>
        findById (primary d) (getPath (shadowShape cfg) result (versionOfIdPath cfg)) = None"
    then show "fst (activateVersion cfg faults id' d) = Callback (Some SuccessFalse) None"
      and "primary (snd (activateVersion cfg faults id' d)) = primary d"
      using nc by (simp_all add: activateVersion_def logOp_def Let_def)
  }
  {
    fix result active
    assume h: "faults FindVersion = None \<and> faults FindActive = None \<and> faults SaveActive = None \<and>
        findById (shadow d) id' = Some result \<and>
        findById (primary d) (getPath (shadowShape cfg) result (versionOfIdPath cfg)) = Some active \<and>
        map_of (flds result) ''save'' = None"
    define promoted where
      "promoted = setPath (primarySchema cfg) (copyToActive cfg (toObject result) active)
                    (versionIdPath cfg) id'"
    from h have ld: "\<not> isNew active" "\<not> idModified active"
      using findById_Some by blast+
    from h have oc: "\<not> castFails (getPath (shadowShape cfg) result (versionOfIdPath cfg))"
      using findById_Some castFails_castId by blast
    have ptr: "map_of (flds promoted) (versionIdPath cfg) = Some (ObjectId n)"
      using assms by (simp add: promoted_def setPath_flds castAt_def castValue_castId)
    have fr: "docId promoted = docId active" "\<not> isNew promoted" "\<not> idModified promoted"
      "\<not> castFails (getProp (flds promoted) (idLink (primarySchema cfg)))"
      using ld assms(2) ptr
      by (simp_all add: promoted_def copyToActive_frame setPath_idModified getProp_def)
    have run: "activateVersion cfg faults id' d =
            (Callback None (Some promoted),
             (logOp SaveActive (logOp FindActive (logOp FindVersion d)))
               \<lparr>primary := AList.update (docId promoted) (flds promoted) (primary d)\<rparr>)"
      using h nc oc saveChecked_loaded [OF fr(2,3,4), of "primary d"]
      by (simp add: activateVersion_def Let_def storeCall_def promoted_def [symmetric] logOp_def)
    have cp: "\<forall>key. key \<noteq> ''_id'' \<and> key \<noteq> versionOfIdPath cfg \<and> key \<noteq> versionIdPath cfg \<and>
                      isPath (primaryShape cfg) key \<longrightarrow>
                      map_of (flds promoted) key =
                        (case map_of (flds result) key of
                           Some v \<Rightarrow> Some v
                         | None \<Rightarrow> map_of (flds active) key)"
      by (auto simp add: promoted_def setPath_flds copyToActive_flds map_of_toObject
               split: option.splits)
    show "\<exists>activeSaved.
               fst (activateVersion cfg faults id' d) = Callback None (Some activeSaved) \<and>
               docId activeSaved = docId active \<and>
               map_of (primary (snd (activateVersion cfg faults id' d))) (docId active)
                 = Some (flds activeSaved) \<and>
               map_of (flds activeSaved) (versionIdPath cfg) = Some (ObjectId n) \<and>
               (\<forall>key. key \<noteq> ''_id'' \<and> key \<noteq> versionOfIdPath cfg \<and> key \<noteq> versionIdPath cfg \<and>
                      isPath (primaryShape cfg) key \<longrightarrow>
                      map_of (flds activeSaved) key =
                        (case map_of (flds result) key of
                           Some v \<Rightarrow> Some v
                         | None \<Rightarrow> map_of (flds active) key))"
      using run fr ptr cp by (intro exI [of _ promoted]) (simp add: update_conv')
  }
qed

theorem C5_activateVersion_witness:
  "isPath (primaryShape noteConfig) (versionIdPath noteConfig) \<and>
   versionIdPath noteConfig \<noteq> ''_id'' \<and>
   noFaults FindVersion = None \<and> noFaults FindActive = None \<and> noFaults SaveActive = None \<and>
   map_of (shadow noteDbMore) 13 = None \<and>
   fst (activateVersion noteConfig noFaults (ObjectId 13) noteDbMore)
     = Callback (Some SuccessFalse) None \<and>
   findById (shadow noteDbMore) (ObjectId 12) \<noteq> None \<and>
   findById (primary noteDbMore) (ObjectId 2) = None \<and>
   fst (activateVersion noteConfig noFaults (ObjectId 12) noteDbMore)
     = Callback (Some SuccessFalse) None \<and>
   castId (Str hexEleven) = Some 11 \<and>
   (\<exists>activeSaved.
      fst (activateVersion noteConfig noFaults (Str hexEleven) noteDbMore)
        = Callback None (Some activeSaved) \<and>
      docId activeSaved = 1 \<and>
      map_of (primary (snd (activateVersion noteConfig noFaults (Str hexEleven) noteDbMore))) 1
        = Some (flds activeSaved) \<and>
      map_of (flds activeSaved) ''versionId'' = Some (ObjectId 11) \<and>
      map_of (flds activeSaved) ''title'' = Some (Str ''C'') \<and>
      map_of (flds activeSaved) ''deck'' = Some (Str ''y''))"
proof -
  have p: "isPath (primaryShape noteConfig) (versionIdPath noteConfig)"
    and q: "versionIdPath noteConfig \<noteq> ''_id''"
    by (simp_all add: noteConfig_def isPath_def)
  let ?v11 = "\<lparr>docId = 11, isNew = False,
                flds = [(''title'', Str ''C''), (''deck'', Str ''y''), (''versionOfId'', ObjectId 1)],
                adhoc = [], idModified = False\<rparr>"
  let ?v12 = "\<lparr>docId = 12, isNew = False,
                flds = [(''title'', Str ''D''), (''versionOfId'', ObjectId 2)],
                adhoc = [], idModified = False\<rparr>"
  let ?active = "\<lparr>docId = 1, isNew = False,
                   flds = [(''title'', Str ''A''), (''deck'', Str ''x''), (''versionId'', ObjectId 10)],
                   adhoc = [], idModified = False\<rparr>"
  have c11: "castId (Str hexEleven) = Some 11" and c12: "castId (ObjectId 12) = Some 12"
    and c13: "castId (ObjectId 13) = Some 13"
    by simp_all
  have f: "noFaults FindVersion = None \<and> noFaults FindActive = None \<and> noFaults SaveActive = None"
    by (simp add: noFaults_def)
  have n13: "map_of (shadow noteDbMore) 13 = None" by (simp add: noteDbMore_def)
  have r12: "findById (shadow noteDbMore) (ObjectId 12) = Some ?v12"
    by (simp add: findById_def noteDbMore_def)
  have o12: "getPath (shadowShape noteConfig) ?v12 (versionOfIdPath noteConfig) = ObjectId 2"
    by (simp add: noteConfig_def getPath_def isPath_def getProp_def)
  have a12: "findById (primary noteDbMore) (ObjectId 2) = None"
    by (simp add: findById_def noteDbMore_def)
  have r11: "findById (shadow noteDbMore) (Str hexEleven) = Some ?v11"
    by (simp add: findById_def noteDbMore_def)
  have o11: "getPath (shadowShape noteConfig) ?v11 (versionOfIdPath noteConfig) = ObjectId 1"
    by (simp add: noteConfig_def getPath_def isPath_def getProp_def)
  have a11: "findById (primary noteDbMore)
               (getPath (shadowShape noteConfig) ?v11 (versionOfIdPath noteConfig)) = Some ?active"
    by (simp add: findById_def noteDbMore_def noteConfig_def getPath_def isPath_def getProp_def)
  have s11: "map_of (flds ?v11) ''save'' = None" by simp
  from C5_activateVersion [OF p q c13, of noFaults noteDbMore] f n13
  have one: "fst (activateVersion noteConfig noFaults (ObjectId 13) noteDbMore)
               = Callback (Some SuccessFalse) None"
    by blast
  have a12': "\<not> castFails (getPath (shadowShape noteConfig) ?v12 (versionOfIdPath noteConfig)) \<and>
              findById (primary noteDbMore)
                (getPath (shadowShape noteConfig) ?v12 (versionOfIdPath noteConfig)) = None"
    by (simp add: findById_def noteDbMore_def noteConfig_def getPath_def isPath_def getProp_def)
  from C5_activateVersion [OF p q c12, of noFaults noteDbMore] f r12 a12'
  have two: "fst (activateVersion noteConfig noFaults (ObjectId 12) noteDbMore)
               = Callback (Some SuccessFalse) None"
    by blast
  from C5_activateVersion [OF p q c11, of noFaults noteDbMore] f r11 a11 s11
  obtain activeSaved where
    s: "fst (activateVersion noteConfig noFaults (Str hexEleven) noteDbMore)
          = Callback None (Some activeSaved)"
       "docId activeSaved = docId ?active"
       "map_of (primary (snd (activateVersion noteConfig noFaults (Str hexEleven) noteDbMore)))
          (docId ?active) = Some (flds activeSaved)"
       "map_of (flds activeSaved) (versionIdPath noteConfig) = Some (ObjectId 11)" and
    c: "\<forall>key. key \<noteq> ''_id'' \<and> key \<noteq> versionOfIdPath noteConfig \<and> key \<noteq> versionIdPath noteConfig \<and>
              isPath (primaryShape noteConfig) key \<longrightarrow>
              map_of (flds activeSaved) key =
                (case map_of (flds ?v11) key of Some v \<Rightarrow> Some v | None \<Rightarrow> map_of (flds ?active) key)"
    by blast
  from c have t: "map_of (flds activeSaved) ''title'' = Some (Str ''C'')"
    and k: "map_of (flds activeSaved) ''deck'' = Some (Str ''y'')"
    by (simp_all add: noteConfig_def isPath_def)
  show ?thesis
    using p q f n13 one r12 a12 two c11 s t k by (simp add: noteConfig_def)
qed

subsection \<open>saveVersion: promotion\<close>

lemma logOp_frame [simp]:
  "primary (logOp op d) = primary d"
  "shadow (logOp op d) = shadow d"
  "nextId (logOp op d) = nextId d"
  by (simp_all add: logOp_def)

lemma generated_frame [simp]:
  "primary (generated v d) = primary d"
  "shadow (generated v d) = shadow d"
  by (simp_all add: generated_def split: option.splits)

lemma prepareVersion_logOp [simp]:
  "prepareVersion cfg dat dataObj (logOp op d) = prepareVersion cfg dat dataObj d"
  by (simp add: prepareVersion_def split: option.splits)

lemma snapshotData_Inr: "snapshotData dat = Inr dat' \<Longrightarrow> dat' = dat"
  by (simp add: snapshotData_cases split: if_splits)
















subsection \<open>saveVersion: the active pointer\<close>









subsection \<open>A data object with a property named toObject\<close>

text \<open>
  The copy loop assigns every key of \<open>data\<close> to the Version Record. A key named
  \<open>toObject\<close> is no path of the schema, so it becomes a plain property that takes the
  place of the record's method: the stored Version Record has the fields of \<open>data\<close>,
  and the Active Document receives the fields that the function returns. The properties
  of the promotion above are therefore stated for \<open>data\<close> without such a key.
\<close>

lemma saveVersion_toObject_shadowed:
  "map_of (shadow (snd (saveVersion noteConfig noFaults
       \<lparr>data = [(''title'', Str ''B''), (''toObject'', Fun [(''title'', Str ''snapshot'')])],
        versionId = Str hexTen, versionOfId = Str hexOne\<rparr> noteDb))) 10
     = Some [(''title'', Str ''B''), (''deck'', Str ''x''), (''versionOfId'', ObjectId 1)] \<and>
   map_of (primary (snd (saveVersion noteConfig noFaults
       \<lparr>data = [(''title'', Str ''B''), (''toObject'', Fun [(''title'', Str ''snapshot'')])],
        versionId = Str hexTen, versionOfId = Str hexOne\<rparr> noteDb))) 1
     = Some [(''title'', Str ''snapshot''), (''deck'', Str ''x''), (''versionId'', ObjectId 10)]"
  by (simp add: saveVersion_defs store_defs example_defs Let_def)

subsection \<open>upsertVersion: a stale token\<close>

lemma castId_truthy: "castId v = Some n \<Longrightarrow> truthy v"
  by (cases v) (auto simp add: isHex24_def split: if_splits)

lemma newDoc_frame:
  "map_of dat ''_id'' = None \<Longrightarrow> docId (newDoc s dflts fresh dat) = fresh"
  "isNew (newDoc s dflts fresh dat)"
  by (simp_all add: newDoc_def getProp_def)

lemma create_shadow_existing:
  assumes "castId (getProp originalObj ''_id'') = Some a"
    and "faults SaveVersionDoc = None"
    and "map_of (shadow d) (nextId d) = None"
    and "versionOfIdPath cfg \<noteq> ''_id''"
  shows "\<exists>versSaved.
           create_shadow cfg faults originalObj d =
             (Callback None (Some versSaved),
              (logOp SaveVersionDoc (d\<lparr>nextId := Suc (nextId d)\<rparr>))
                \<lparr>shadow := AList.update (nextId d) (flds versSaved) (shadow d)\<rparr>) \<and>
           docId versSaved = nextId d"
proof -
  let ?s = "shadowSchema cfg"
  let ?versDoc = "setPath ?s
                    (newDoc ?s (defaults cfg) (nextId d) (AList.delete ''_id'' originalObj))
                    (versionOfIdPath cfg) (ObjectId a)"
  have noid: "map_of (AList.delete ''_id'' originalObj) ''_id'' = None"
    by (simp add: delete_conv')
  have fr: "docId ?versDoc = nextId d" "isNew ?versDoc"
    using newDoc_frame(1) [OF noid] newDoc_frame(2) by simp_all
  have "\<not> idModified ?versDoc"
    using assms(4) noid by (simp add: setPath_idModified newDoc_def getProp_def)
  then have "\<not> invalid ?s ?versDoc"
    by (simp add: invalid_def getProp_def setPath_flds castAt_def castValue_def)
  then have sv: "saveChecked ?s (shadow d) ?versDoc
              = Inr (AList.update (nextId d) (flds ?versDoc) (shadow d), ?versDoc\<lparr>isNew := False\<rparr>)"
    using fr assms(3) by (simp add: saveChecked_def saveDoc_def)
  show ?thesis
    using toString_castId [OF assms(1)] assms(2) sv fr
    by (intro exI [of _ "?versDoc\<lparr>isNew := False\<rparr>"])
       (simp add: create_shadow_def Let_def storeCall_def)
qed

lemma findOne_stale:
  assumes "versionIdPath cfg \<noteq> ''_id''"
    and "castId idv = Some a" and "castId token = Some t"
    and "\<forall>doc \<in> set coll. fst doc = a \<longrightarrow> map_of (snd doc) (versionIdPath cfg) \<noteq> Some (ObjectId t)"
  shows "findOne (primarySchema cfg) coll [(''_id'', idv), (versionIdPath cfg, token)] = None"
proof -
  let ?q = "[(''_id'', idv), (versionIdPath cfg, token)]"
  have "\<And>doc. doc \<in> set coll \<Longrightarrow> \<not> matches (primarySchema cfg) ?q doc"
    using assms
    by (auto simp add: matches_def fieldMatches_def getProp_def castAt_def castValue_castId)
  then have "filter (matches (primarySchema cfg) ?q) coll = []"
    by (simp add: filter_empty_conv)
  then show ?thesis by (simp add: findOne_def)
qed

text \<open>
  C7: outside append-only mode, \<open>upsertVersion\<close> on an existing document whose current
  \<open>versionId\<close> is not the identifier that the caller's version token writes fails with
  the concurrency conflict error that names the token; the Version Record created for
  the call is deleted again, and the Active Document is not updated. The identifier of
  the document and the token are ObjectIds or strings of 24 hexadecimal digits, which the
  query casts: the string that writes the current \<open>versionId\<close> is not stale.
\<close>

theorem C7_stale_token_conflict:
  assumes mode: "\<not> append_only cfg"
    and path: "versionIdPath cfg \<noteq> ''_id''" "versionOfIdPath cfg \<noteq> ''_id''"
    and ident: "castId (getProp dataObj ''_id'') = Some a"
    and token: "castId (getProp dataObj (versionIdPath cfg)) = Some t"
    and existing: "map_of (primary d) a = Some af"
    and stale: "\<forall>doc \<in> set (primary d). fst doc = a \<longrightarrow>
                  map_of (snd doc) (versionIdPath cfg) \<noteq> Some (ObjectId t)"
    and faults: "faults SaveVersionDoc = None" "faults UpdateActive = None"
      "faults CompensateRemove = None"
    and fresh: "map_of (shadow d) (nextId d) = None"
  shows "fst (upsertVersion cfg faults dataObj query d)
           = Callback (Some (NotUpToDate (getProp dataObj (versionIdPath cfg)))) None \<and>
         primary (snd (upsertVersion cfg faults dataObj query d)) = primary d \<and>
         shadow (snd (upsertVersion cfg faults dataObj query d)) = shadow d \<and>
         log (snd (upsertVersion cfg faults dataObj query d))
           = log d @ [SaveVersionDoc, UpdateActive, CompensateRemove]"
proof -
  let ?q = "[(''_id'', getProp dataObj ''_id''),
             (versionIdPath cfg, getProp dataObj (versionIdPath cfg))]"
  from create_shadow_existing
         [where originalObj = dataObj and a = a and faults = faults and d = d and cfg = cfg,
          OF ident faults(1) fresh path(2)]
  obtain versSaved where
    cs: "create_shadow cfg faults dataObj d =
           (Callback None (Some versSaved),
            (logOp SaveVersionDoc (d\<lparr>nextId := Suc (nextId d)\<rparr>))
              \<lparr>shadow := AList.update (nextId d) (flds versSaved) (shadow d)\<rparr>)"
    and vid: "docId versSaved = nextId d"
    by blast
  have tr: "truthy (getProp dataObj ''_id'')" "truthy (getProp dataObj (versionIdPath cfg))"
    using castId_truthy [OF ident] castId_truthy [OF token] by simp_all
  have casts: "\<not> queryCastFails (primarySchema cfg) ?q"
    using castFails_castId [OF ident] castFails_castId [OF token] path(1)
    by (simp add: queryCastFails_def getProp_def)
  have none: "findOne (primarySchema cfg) (primary d) ?q = None"
    using findOne_stale [OF path(1) ident token stale] .
  have q: "getProp ?q (versionIdPath cfg) = getProp dataObj (versionIdPath cfg)"
    using path(1) by (simp add: getProp_def)
  have restored: "AList.delete (nextId d) (AList.update (nextId d) (flds versSaved) (shadow d)) = shadow d"
    using fresh by (simp add: delete_update_same map_of_eq_None_iff)
  show ?thesis
    using mode tr faults(2,3) casts
    by (simp add: upsertVersion_def cs Let_def none q compensate_def logOp_def vid restored)
qed

theorem C7_stale_token_conflict_witness:
  "\<not> append_only noteConfig \<and>
   castId (getProp [(''_id'', Str hexOne), (''title'', Str ''Z''), (''versionId'', Str hexEleven)] ''_id'')
     = Some 1 \<and>
   map_of (primary noteDb) 1
     = Some [(''title'', Str ''A''), (''deck'', Str ''x''), (''versionId'', ObjectId 10)] \<and>
   map_of (shadow noteDb) (nextId noteDb) = None \<and>
   fst (upsertVersion noteConfig noFaults
          [(''_id'', Str hexOne), (''title'', Str ''Z''), (''versionId'', Str hexEleven)] None noteDb)
     = Callback (Some (NotUpToDate (Str hexEleven))) None \<and>
   primary (snd (upsertVersion noteConfig noFaults
          [(''_id'', Str hexOne), (''title'', Str ''Z''), (''versionId'', Str hexEleven)] None noteDb))
     = primary noteDb \<and>
   shadow (snd (upsertVersion noteConfig noFaults
          [(''_id'', Str hexOne), (''title'', Str ''Z''), (''versionId'', Str hexEleven)] None noteDb))
     = shadow noteDb"
proof -
  let ?dataObj = "[(''_id'', Str hexOne), (''title'', Str ''Z''), (''versionId'', Str hexEleven)]"
  have mode: "\<not> append_only noteConfig"
    and path: "versionIdPath noteConfig \<noteq> ''_id''" "versionOfIdPath noteConfig \<noteq> ''_id''"
    by (simp_all add: noteConfig_def)
  have ident: "castId (getProp ?dataObj ''_id'') = Some 1" by (simp add: getProp_def)
  have tok: "getProp ?dataObj (versionIdPath noteConfig) = Str hexEleven"
    by (simp add: getProp_def noteConfig_def)
  have token: "castId (getProp ?dataObj (versionIdPath noteConfig)) = Some 11"
    unfolding tok by simp
  have existing: "map_of (primary noteDb) 1
      = Some [(''title'', Str ''A''), (''deck'', Str ''x''), (''versionId'', ObjectId 10)]"
    by (simp add: noteDb_def)
  have stale: "\<forall>doc \<in> set (primary noteDb). fst doc = 1 \<longrightarrow>
      map_of (snd doc) (versionIdPath noteConfig) \<noteq> Some (ObjectId 11)"
    by (simp add: noteDb_def noteConfig_def)
  have f: "noFaults SaveVersionDoc = None" "noFaults UpdateActive = None"
    "noFaults CompensateRemove = None"
    by (simp_all add: noFaults_def)
  have fresh: "map_of (shadow noteDb) (nextId noteDb) = None" by (simp add: noteDb_def)
  show ?thesis
    using mode existing fresh
      C7_stale_token_conflict [OF mode path ident token existing stale f fresh, of None]
    by (simp add: getProp_def noteConfig_def)
qed

subsection \<open>Saving a new version and activating it\<close>

lemma strict_eq_ObjectId [simp]: "strict_eq x (ObjectId n) = False"
  by (cases x) simp_all

lemma castAt_ObjectId [simp]: "castAt s key (ObjectId n) = ObjectId n"
  by (simp add: castAt_def castValue_def)

lemma newDoc_flds:
  "map_of (flds (newDoc s dflts fresh dat)) key =
     (if key \<noteq> ''_id'' \<and> isPath (fieldsOf s) key
      then (case map_of dat key of Some v \<Rightarrow> Some (castAt s key v) | None \<Rightarrow> map_of dflts key)
      else None)"
proof -
  let ?f = "\<lambda>(key, val). if key = ''_id'' then None
              else (case map_of dat key of
                      Some v \<Rightarrow> Some (key, castAt s key v)
                    | None \<Rightarrow> map_option (Pair key) (map_of dflts key))"
  have "map_of (List.map_filter ?f shp) key =
          (if key \<noteq> ''_id'' \<and> map_of shp key \<noteq> None
           then (case map_of dat key of Some v \<Rightarrow> Some (castAt s key v) | None \<Rightarrow> map_of dflts key)
           else None)" for shp :: shape
  proof (induction shp)
    case Nil
    then show ?case by (simp add: List.map_filter_simps)
  next
    case (Cons p shp)
    obtain k val where p: "p = (k, val)" by (cases p)
    show ?case
      using Cons.IH
      by (auto simp add: p List.map_filter_simps split: option.splits)
  qed
  then show ?thesis by (simp add: newDoc_def isPath_def)
qed

lemma getPath_setPath_same:
  "isPath (fieldsOf s) key \<Longrightarrow> key \<noteq> ''_id'' \<Longrightarrow>
     getPath (fieldsOf s) (setPath s d key v) key = castAt s key v"
  by (simp add: getPath_def getProp_def setPath_flds)

lemma saveChecked_loaded_Inr:
  "saveChecked s coll doc = Inr (coll', doc') \<Longrightarrow> \<not> isNew doc \<Longrightarrow>
     doc' = doc \<and> coll' = AList.update (docId doc) (flds doc) coll"
  by (auto simp add: saveChecked_def saveDoc_def split: if_splits)

lemma storeCall_Inr:
  "storeCall faults op r = Inr x \<Longrightarrow> faults op = None \<and> r = Inr x"
  by (simp add: storeCall_def split: option.splits)

lemma saveVersion_resave_success:
  assumes "saveVersion_resave cfg faults ob vs saved d = (Callback None (Some v), d1)"
    and "\<not> isNew vs"
  shows "\<exists>pr os. saved = Inr (pr, os) \<and>
           v = setPath (shadowSchema cfg) vs (versionOfIdPath cfg) (ObjectId (docId os)) \<and>
           primary d1 = pr \<and>
           shadow d1 = AList.update (docId vs) (flds v) (shadow d)"
proof (cases saved)
  case (Inl e)
  with assms(1) show ?thesis by (simp add: saveVersion_resave_def)
next
  case (Inr p)
  obtain pr os where p: "p = (pr, os)" by (cases p)
  let ?vs = "setPath (shadowSchema cfg) vs (versionOfIdPath cfg) (ObjectId (docId os))"
  let ?d = "logOp SaveVersionAgain (d\<lparr>primary := pr\<rparr>)"
  from assms(1) obtain sh where
    sc: "storeCall faults SaveVersionAgain (saveChecked (shadowSchema cfg) (shadow ?d) ?vs)
           = Inr (sh, v)"
    and d1: "d1 = ?d\<lparr>shadow := sh\<rparr>"
    by (cases "storeCall faults SaveVersionAgain (saveChecked (shadowSchema cfg) (shadow ?d) ?vs)")
       (auto simp add: Inr p saveVersion_resave_def Let_def)
  from storeCall_Inr [OF sc]
  have "saveChecked (shadowSchema cfg) (shadow d) ?vs = Inr (sh, v)" by simp
  from saveChecked_loaded_Inr [OF this] assms(2)
  have "v = ?vs" and "sh = AList.update (docId vs) (flds ?vs) (shadow d)" by simp_all
  then show ?thesis by (simp add: Inr p d1)
qed

lemma saveVersion_active_success:
  assumes run: "saveVersion_active cfg faults dataObj vs d = (Callback None (Some v), d1)"
    and vs: "\<not> isNew vs" "adhoc vs = []" "map_of (shadow d) (docId vs) = Some (flds vs)"
    and link: "map_of (flds vs) (versionOfIdPath cfg)
                 = Some (castValue (if truthy (versionOfId dataObj) then versionOfId dataObj else Null))"
    and cfg: "versionOfIdPath cfg \<noteq> ''_id''" "isPath (shadowShape cfg) (versionOfIdPath cfg)"
      "isPath (primaryShape cfg) (versionIdPath cfg)" "versionIdPath cfg \<noteq> ''_id''"
  shows "docId v = docId vs \<and> map_of (shadow d1) (docId v) = Some (flds v) \<and>
         (\<exists>a af. map_of (flds v) (versionOfIdPath cfg) = Some (ObjectId a) \<and>
                  map_of (primary d1) a = Some af) \<and>
         (\<forall>key. key \<noteq> versionOfIdPath cfg \<longrightarrow> map_of (flds v) key = map_of (flds vs) key)"
proof -
  have nf: "findCall faults FindActive (castFails (versionOfId dataObj)) = None"
    using run
    by (cases "findCall faults FindActive (castFails (versionOfId dataObj))")
       (simp_all add: saveVersion_active_def Let_def)
  let ?ob = "toObject vs"
  have ob: "callToObject vs = Inr ?ob"
    using vs(2) by (simp add: callToObject_def)
  show ?thesis
  proof (cases "findById (primary d) (versionOfId dataObj)")
    case (Some original)
    from findById_Some [OF Some]
    have E: "castId (versionOfId dataObj) = Some (docId original)"
      and st: "map_of (primary d) (docId original) = Some (flds original)"
      and ld: "\<not> isNew original" "\<not> idModified original"
      by simp_all
    have lk: "map_of (flds vs) (versionOfIdPath cfg) = Some (ObjectId (docId original))"
      using link castId_truthy [OF E] by (simp add: castValue_castId [OF E])
    show ?thesis
    proof (cases "toString (getPath (primaryShape cfg) original (versionIdPath cfg))")
      case (Inl x)
      with run Some nf show ?thesis by (simp add: saveVersion_active_def Let_def)
    next
      case (Inr s)
      show ?thesis
      proof (cases "s = Hex (docId vs)")
        case False
        with run Some nf Inr have "v = vs" and "d1 = logOp FindActive d"
          by (simp_all add: saveVersion_active_def Let_def)
        then show ?thesis using vs(3) lk st by simp
      next
        case True
        let ?promoted = "copyToActive cfg ?ob original"
        let ?d2 = "logOp SaveActive (logOp FindActive d)"
        from run Some nf Inr True ob
        have rs: "saveVersion_resave cfg faults ?ob vs
                    (storeCall faults SaveActive
                       (saveChecked (primarySchema cfg) (primary ?d2) ?promoted)) ?d2
                  = (Callback None (Some v), d1)"
          by (simp add: saveVersion_active_def Let_def)
        from saveVersion_resave_success [OF rs vs(1)]
        obtain pr os where
          sc: "storeCall faults SaveActive
                 (saveChecked (primarySchema cfg) (primary ?d2) ?promoted) = Inr (pr, os)" and
          v: "v = setPath (shadowSchema cfg) vs (versionOfIdPath cfg) (ObjectId (docId os))" and
          p1: "primary d1 = pr" and
          s1: "shadow d1 = AList.update (docId vs) (flds v) (shadow ?d2)"
          by blast
        from storeCall_Inr [OF sc]
        have "saveChecked (primarySchema cfg) (primary d) ?promoted = Inr (pr, os)" by simp
        from saveChecked_loaded_Inr [OF this] ld(1)
        have pr: "pr = AList.update (docId original) (flds ?promoted) (primary d)"
          and os: "os = ?promoted"
          by (simp_all add: copyToActive_frame)
        have "docId os = docId original" by (simp add: os copyToActive_frame)
        then show ?thesis
          using v p1 s1 pr cfg(1,2)
          by (auto simp add: update_conv' setPath_flds)
      qed
    qed
  next
    case None
    let ?fresh = "setPath (primarySchema cfg)
                    (newDoc (primarySchema cfg) (defaults cfg) (nextId d) [])
                    (versionIdPath cfg) (ObjectId (docId vs))"
    let ?promoted = "copyToActive cfg ?ob ?fresh"
    let ?d2 = "logOp SaveActive ((logOp FindActive d)\<lparr>nextId := Suc (nextId d)\<rparr>)"
    have "getPath (fieldsOf (primarySchema cfg)) ?fresh (versionIdPath cfg)
            = castAt (primarySchema cfg) (versionIdPath cfg) (ObjectId (docId vs))"
      using cfg(3,4) by (intro getPath_setPath_same) simp_all
    then have gp: "getPath (primaryShape cfg) ?fresh (versionIdPath cfg) = ObjectId (docId vs)"
      by (simp add: castAt_def castValue_def)
    from run None nf gp ob
    have rs: "saveVersion_resave cfg faults ?ob vs
                (storeCall faults SaveActive
                   (saveChecked (primarySchema cfg) (primary ?d2) ?promoted)) ?d2
              = (Callback None (Some v), d1)"
      by (simp add: saveVersion_active_def Let_def)
    from saveVersion_resave_success [OF rs vs(1)]
    obtain pr os where
      sc: "storeCall faults SaveActive
             (saveChecked (primarySchema cfg) (primary ?d2) ?promoted) = Inr (pr, os)" and
      v: "v = setPath (shadowSchema cfg) vs (versionOfIdPath cfg) (ObjectId (docId os))" and
      p1: "primary d1 = pr" and
      s1: "shadow d1 = AList.update (docId vs) (flds v) (shadow ?d2)"
      by blast
    from storeCall_Inr [OF sc]
    have "saveChecked (primarySchema cfg) (primary d) ?promoted = Inr (pr, os)" by simp
    from saveChecked_Inr [OF this]
    have pr: "pr = AList.update (docId ?promoted) (flds ?promoted) (primary d)"
      and os: "docId os = docId ?promoted"
      by simp_all
    show ?thesis
      using v p1 s1 pr os cfg(1,2)
      by (auto simp add: update_conv' setPath_flds)
  qed
qed

lemma activateVersion_promotes:
  assumes faults: "faults FindVersion = None" "faults FindActive = None" "faults SaveActive = None"
    and version: "map_of (shadow d) n = Some vf" "map_of vf (versionOfIdPath cfg) = Some (ObjectId a)"
    and active: "map_of (primary d) a = Some af"
    and cfg: "versionOfIdPath cfg \<noteq> ''_id''" "isPath (shadowShape cfg) (versionOfIdPath cfg)"
      "isPath (primaryShape cfg) (versionIdPath cfg)" "versionIdPath cfg \<noteq> ''_id''"
  shows "\<exists>activeSaved.
           fst (activateVersion cfg faults (ObjectId n) d) = Callback None (Some activeSaved) \<and>
           docId activeSaved = a \<and>
           map_of (primary (snd (activateVersion cfg faults (ObjectId n) d))) a
             = Some (flds activeSaved) \<and>
           map_of (flds activeSaved) (versionIdPath cfg) = Some (ObjectId n) \<and>
           (\<forall>key. key \<noteq> ''_id'' \<and> key \<noteq> versionOfIdPath cfg \<and> key \<noteq> versionIdPath cfg \<and>
                  isPath (primaryShape cfg) key \<longrightarrow>
                  map_of (flds activeSaved) key =
                    (case map_of vf key of Some x \<Rightarrow> Some x | None \<Rightarrow> map_of af key))"
proof -
  let ?result = "\<lparr>docId = n, isNew = False, flds = vf, adhoc = [], idModified = False\<rparr>"
  let ?active = "\<lparr>docId = a, isNew = False, flds = af, adhoc = [], idModified = False\<rparr>"
  define promoted where
    "promoted = setPath (primarySchema cfg) (copyToActive cfg (toObject ?result) ?active)
                  (versionIdPath cfg) (ObjectId n)"
  have fr: "findById (shadow d) (ObjectId n) = Some ?result"
    using version(1) by (simp add: findById_def)
  have gp: "getPath (shadowShape cfg) ?result (versionOfIdPath cfg) = ObjectId a"
    using cfg(1,2) version(2) by (simp add: getPath_def getProp_def)
  have fa: "findById (primary d) (ObjectId a) = Some ?active"
    using active by (simp add: findById_def)
  have fr': "docId promoted = a" "\<not> isNew promoted" "\<not> idModified promoted"
    using cfg(4) by (simp_all add: promoted_def copyToActive_frame setPath_idModified)
  have ptr: "map_of (flds promoted) (versionIdPath cfg) = Some (ObjectId n)"
    using cfg(3,4) by (simp add: promoted_def setPath_flds castAt_def castValue_def)
  then have valid: "\<not> castFails (getProp (flds promoted) (idLink (primarySchema cfg)))"
    by (simp add: getProp_def)
  have sv: "saveChecked (primarySchema cfg) (primary d) promoted
              = Inr (AList.update a (flds promoted) (primary d), promoted)"
    using saveChecked_loaded [OF fr'(2,3) valid] by (simp add: fr'(1))
  have run: "activateVersion cfg faults (ObjectId n) d =
          (Callback None (Some promoted),
           (logOp SaveActive (logOp FindActive (logOp FindVersion d)))
             \<lparr>primary := AList.update a (flds promoted) (primary d)\<rparr>)"
    using faults fr gp fa sv
    by (simp add: activateVersion_def Let_def storeCall_def promoted_def [symmetric] logOp_def)
  have cp: "\<forall>key. key \<noteq> ''_id'' \<and> key \<noteq> versionOfIdPath cfg \<and> key \<noteq> versionIdPath cfg \<and>
                  isPath (primaryShape cfg) key \<longrightarrow>
                  map_of (flds promoted) key =
                    (case map_of vf key of Some x \<Rightarrow> Some x | None \<Rightarrow> map_of af key)"
    by (auto simp add: promoted_def setPath_flds copyToActive_flds map_of_toObject split: option.splits)
  show ?thesis
    using run fr' ptr cp by (intro exI [of _ promoted]) (simp add: update_conv')
qed

text \<open>
  C3, as stated: after \<open>saveVersion({data, versionId: null, versionOfId: E})\<close> and
  \<open>activateVersion\<close> of the returned Version Record, the domain fields of the Active
  Document equal \<open>data\<close>. With \<open>data = {title: "C"}\<close> and the Active Document 1 holding
  \<open>deck = "x"\<close>, the activated document still holds \<open>deck = "x"\<close>, which \<open>data\<close> does
  not have.
\<close>

theorem C3_roundtrip_counterexample:
  "fst (saveVersion noteConfig noFaults
          \<lparr>data = [(''title'', Str ''C'')], versionId = Null, versionOfId = ObjectId 1\<rparr> noteDb)
     = Callback None (Some \<lparr>docId = 100, isNew = False,
         flds = [(''title'', Str ''C''), (''versionOfId'', ObjectId 1)], adhoc = [],
         idModified = False\<rparr>) \<and>
   fst (activateVersion noteConfig noFaults (ObjectId 100)
          (snd (saveVersion noteConfig noFaults
             \<lparr>data = [(''title'', Str ''C'')], versionId = Null, versionOfId = ObjectId 1\<rparr> noteDb)))
     = Callback None (Some \<lparr>docId = 1, isNew = False,
         flds = [(''title'', Str ''C''), (''deck'', Str ''x''), (''versionId'', ObjectId 100)],
         adhoc = [], idModified = False\<rparr>) \<and>
   map_of [(''title'', Str ''C'')] ''deck'' = None"
  by (simp add: saveVersion_defs activateVersion_def store_defs example_defs Let_def)

text \<open>
  C3, amended: when \<open>saveVersion({data, versionId: null, versionOfId: E})\<close> delivers a
  Version Record and \<open>activateVersion\<close> of its identifier meets no store error, the
  result is a persisted Active Document that points at that record and in which every
  schema field that \<open>data\<close> supplies, other than the identifier and the link fields, has
  the value of \<open>data\<close>. The link names are the default ones.
\<close>

theorem C3_roundtrip_supplied_fields:
  assumes saved: "saveVersion cfg faults \<lparr>data = dat, versionId = Null, versionOfId = E\<rparr> d
                    = (Callback None (Some v), d1)"
    and faults: "faults FindVersion = None" "faults FindActive = None" "faults SaveActive = None"
    and cfg: "versionOfIdPath cfg = ''versionOfId''" "isPath (shadowShape cfg) ''versionOfId''"
      "isPath (primaryShape cfg) (versionIdPath cfg)" "versionIdPath cfg \<noteq> ''_id''"
  shows "\<exists>active.
           fst (activateVersion cfg faults (ObjectId (docId v)) d1) = Callback None (Some active) \<and>
           map_of (primary (snd (activateVersion cfg faults (ObjectId (docId v)) d1))) (docId active)
             = Some (flds active) \<and>
           map_of (flds active) (versionIdPath cfg) = Some (ObjectId (docId v)) \<and>
           (\<forall>key val. map_of dat key = Some val \<and> key \<noteq> ''_id'' \<and> key \<noteq> ''versionOfId'' \<and>
                key \<noteq> versionIdPath cfg \<and> isPath (shadowShape cfg) key \<and>
                isPath (primaryShape cfg) key \<longrightarrow> map_of (flds active) key = Some val)"
proof -
  let ?dataObj = "\<lparr>data = dat, versionId = Null, versionOfId = E\<rparr>"
  let ?link = "if truthy E then E else Null"
  let ?s = "shadowSchema cfg"
  let ?versDoc = "setPath ?s (newDoc ?s (defaults cfg) (nextId d) dat) ''versionOfId'' ?link"
  let ?d0 = "logOp SaveVersionDoc (generated Null (logOp FindVersion d))"
  have vo: "versionOfIdPath cfg \<noteq> ''_id''" "isPath (shadowShape cfg) (versionOfIdPath cfg)"
    using cfg(1,2) by simp_all
  have snap: "snapshotData dat = Inr dat"
    using saved faults(1)
    by (cases "snapshotData dat") (auto simp add: saveVersion_def Let_def dest: snapshotData_Inr)
  have pv: "prepareVersion cfg dat ?dataObj d = ?versDoc"
    by (simp add: prepareVersion_def findById_def)
  obtain sh vs where
    sv: "storeCall faults SaveVersionDoc (saveChecked ?s (shadow d) ?versDoc) = Inr (sh, vs)"
    using saved faults(1) snap pv
    by (cases "storeCall faults SaveVersionDoc (saveChecked ?s (shadow d) ?versDoc)")
       (auto simp add: saveVersion_def Let_def)
  have plain: "adhoc ?versDoc = []"
    using cfg(2) by (simp add: setPath_def newDoc_def)
  from storeCall_Inr [OF sv]
  have sc: "saveChecked ?s (shadow d) ?versDoc = Inr (sh, vs)" by simp
  note svd = saveChecked_Inr [OF sc]
  have vsf: "\<not> isNew vs" "adhoc vs = []" "flds vs = flds ?versDoc" "docId vs = docId ?versDoc"
    using svd plain by simp_all
  have sh: "sh = AList.update (docId ?versDoc) (flds ?versDoc) (shadow d)"
    using svd by simp
  have ob: "callToObject vs = Inr (toObject vs)"
    using vsf(2) by (simp add: callToObject_def)
  from saved faults(1) snap pv sv ob
  have act: "saveVersion_active cfg faults ?dataObj vs (?d0\<lparr>shadow := sh\<rparr>)
               = (Callback None (Some v), d1)"
    by (simp add: saveVersion_def Let_def)
  have stored: "map_of (shadow (?d0\<lparr>shadow := sh\<rparr>)) (docId vs) = Some (flds vs)"
    by (simp add: sh vsf update_conv')
  have link: "map_of (flds vs) (versionOfIdPath cfg)
                = Some (castValue (if truthy (versionOfId ?dataObj) then versionOfId ?dataObj else Null))"
    using cfg(1,2) by (simp add: vsf setPath_flds castAt_def)
  from saveVersion_active_success [OF act vsf(1,2) stored link vo cfg(3,4)]
  obtain a af where
    r: "map_of (shadow d1) (docId v) = Some (flds v)"
       "map_of (flds v) (versionOfIdPath cfg) = Some (ObjectId a)"
       "map_of (primary d1) a = Some af" and
    same: "\<forall>key. key \<noteq> versionOfIdPath cfg \<longrightarrow> map_of (flds v) key = map_of (flds vs) key"
    by blast
  from activateVersion_promotes [OF faults r vo cfg(3,4)]
  obtain active where
    a: "fst (activateVersion cfg faults (ObjectId (docId v)) d1) = Callback None (Some active)"
       "docId active = a"
       "map_of (primary (snd (activateVersion cfg faults (ObjectId (docId v)) d1))) a
          = Some (flds active)"
       "map_of (flds active) (versionIdPath cfg) = Some (ObjectId (docId v))" and
    c: "\<forall>key. key \<noteq> ''_id'' \<and> key \<noteq> versionOfIdPath cfg \<and> key \<noteq> versionIdPath cfg \<and>
              isPath (primaryShape cfg) key \<longrightarrow>
              map_of (flds active) key =
                (case map_of (flds v) key of Some x \<Rightarrow> Some x | None \<Rightarrow> map_of af key)"
    by blast
  have supplied: "\<forall>key val. map_of dat key = Some val \<and> key \<noteq> ''_id'' \<and> key \<noteq> ''versionOfId'' \<and>
                isPath (shadowShape cfg) key \<longrightarrow> map_of (flds v) key = Some val"
    using same cfg(1) by (simp add: vsf setPath_flds newDoc_flds)
  have "\<forall>key val. map_of dat key = Some val \<and> key \<noteq> ''_id'' \<and> key \<noteq> ''versionOfId'' \<and>
                key \<noteq> versionIdPath cfg \<and> isPath (shadowShape cfg) key \<and>
                isPath (primaryShape cfg) key \<longrightarrow> map_of (flds active) key = Some val"
    using c supplied cfg(1) by simp
  with a show ?thesis by blast
qed


theorem C3_roundtrip_supplied_fields_witness:
  "saveVersion noteConfig noFaults
      \<lparr>data = [(''title'', Str ''C'')], versionId = Null, versionOfId = ObjectId 1\<rparr> noteDb
     = (Callback None (Some \<lparr>docId = 100, isNew = False,
          flds = [(''title'', Str ''C''), (''versionOfId'', ObjectId 1)], adhoc = [],
          idModified = False\<rparr>),
        \<lparr>primary = primary noteDb,
         shadow = shadow noteDb @ [(100, [(''title'', Str ''C''), (''versionOfId'', ObjectId 1)])],
         nextId = 101, log = [FindVersion, SaveVersionDoc, FindActive]\<rparr>) \<and>
   (\<exists>active.
      fst (activateVersion noteConfig noFaults (ObjectId 100)
             \<lparr>primary = primary noteDb,
              shadow = shadow noteDb @ [(100, [(''title'', Str ''C''), (''versionOfId'', ObjectId 1)])],
              nextId = 101, log = [FindVersion, SaveVersionDoc, FindActive]\<rparr>)
        = Callback None (Some active) \<and>
      map_of (flds active) ''versionId'' = Some (ObjectId 100) \<and>
      map_of (flds active) ''title'' = Some (Str ''C''))"
proof -
  let ?created = "\<lparr>docId = 100, isNew = False,
          flds = [(''title'', Str ''C''), (''versionOfId'', ObjectId 1)], adhoc = [],
          idModified = False\<rparr>"
  let ?d1 = "\<lparr>primary = primary noteDb,
         shadow = shadow noteDb @ [(100, [(''title'', Str ''C''), (''versionOfId'', ObjectId 1)])],
         nextId = 101, log = [FindVersion, SaveVersionDoc, FindActive]\<rparr>"
  have saved: "saveVersion noteConfig noFaults
      \<lparr>data = [(''title'', Str ''C'')], versionId = Null, versionOfId = ObjectId 1\<rparr> noteDb
     = (Callback None (Some ?created), ?d1)"
    by (simp add: saveVersion_defs store_defs example_defs Let_def)
  have f: "noFaults FindVersion = None" "noFaults FindActive = None" "noFaults SaveActive = None"
    by (simp_all add: noFaults_def)
  have c: "versionOfIdPath noteConfig = ''versionOfId''"
    "isPath (shadowShape noteConfig) ''versionOfId''"
    "isPath (primaryShape noteConfig) (versionIdPath noteConfig)"
    "versionIdPath noteConfig \<noteq> ''_id''"
    by (simp_all add: noteConfig_def isPath_def)
  from C3_roundtrip_supplied_fields [OF saved f c]
  obtain active where
    a: "fst (activateVersion noteConfig noFaults (ObjectId (docId ?created)) ?d1)
          = Callback None (Some active)"
       "map_of (flds active) (versionIdPath noteConfig) = Some (ObjectId (docId ?created))" and
    s: "\<forall>key val. map_of [(''title'', Str ''C'')] key = Some val \<and> key \<noteq> ''_id'' \<and>
          key \<noteq> ''versionOfId'' \<and> key \<noteq> versionIdPath noteConfig \<and>
          isPath (shadowShape noteConfig) key \<and> isPath (primaryShape noteConfig) key
          \<longrightarrow> map_of (flds active) key = Some val"
    by blast
  from s have t: "map_of (flds active) ''title'' = Some (Str ''C'')"
    by (simp add: noteConfig_def isPath_def)
  from a(2) have p: "map_of (flds active) ''versionId'' = Some (ObjectId 100)"
    by (simp add: noteConfig_def)
  from a(1) have r: "fst (activateVersion noteConfig noFaults (ObjectId 100) ?d1)
                       = Callback None (Some active)"
    by simp
  show ?thesis using saved r p t by blast
qed


end
